theory Spec2Isabelle
  imports Complex_Main
begin

section \<open>JavaScript values used by the analyzer\<close>

text \<open>
  Plain JavaScript data (the \<open>options\<close> argument, the configuration object and the
  partial configuration given to \<open>updateConfig\<close>) is modelled as a tree of values. An
  object is the list of its own enumerable properties in the order in which
  \<open>JSON.stringify\<close> and object spread visit them; for property names that are not array
  indices this is insertion order. \<open>JNum\<close> is a number that is an integer of magnitude
  below \<open>10^21\<close>, which JavaScript prints with all its digits (\<open>maxTokens\<close>, \<open>timeout\<close>,
  \<open>maxRetries\<close>). \<open>JBigInt\<close> is a BigInt, the value inside such data that
  \<open>JSON.stringify\<close> refuses; a circular structure, which it refuses too, is not a tree.
  Strings are lists of 8-bit characters.
\<close>

datatype json =
    JNull
  | JBool bool
  | JNum int
  | JBigInt int
  | JStr string
  | JArr "json list"
  | JObj "(string \<times> json) list"

text \<open>What the program throws.\<close>

datatype js_error =
    ErrorMsg string
  | TypeError
  | ReferenceError string
  | FsError
  | HttpError

type_synonym jobject = "(string \<times> json) list"

text \<open>Property read \<open>o[k]\<close> on an object: \<open>None\<close> is \<open>undefined\<close>.\<close>

fun obj_get :: "(string \<times> 'a) list \<Rightarrow> string \<Rightarrow> 'a option" where
  "obj_get [] k = None"
| "obj_get ((k', v) # kvs) k = (if k' = k then Some v else obj_get kvs k)"

text \<open>
  Property write \<open>o[k] = v\<close>: an existing property keeps its position, a new one is
  appended. \<open>Map.prototype.set\<close> orders its entries the same way for every key; for an
  object this is the order of the property names that are not array indices, as the
  names of the configuration are.
\<close>

fun obj_set :: "(string \<times> 'a) list \<Rightarrow> string \<Rightarrow> 'a \<Rightarrow> (string \<times> 'a) list" where
  "obj_set [] k v = [(k, v)]"
| "obj_set ((k', v') # kvs) k v =
     (if k' = k then (k, v) # kvs else (k', v') # obj_set kvs k v)"

text \<open>Object spread \<open>{...a, ...b}\<close>: the properties of \<open>a\<close>, then those of \<open>b\<close>, are
  written one by one into a fresh object.\<close>

definition spread_into :: "(string \<times> 'a) list \<Rightarrow> (string \<times> 'a) list \<Rightarrow> (string \<times> 'a) list" where
  "spread_into target src = fold (\<lambda>kv acc. obj_set acc (fst kv) (snd kv)) src target"

definition spread2 :: "(string \<times> 'a) list \<Rightarrow> (string \<times> 'a) list \<Rightarrow> (string \<times> 'a) list" where
  "spread2 a b = spread_into (spread_into [] a) b"

text \<open>\<open>ToBoolean\<close>: what \<open>!x\<close> and \<open>x || y\<close> test; \<open>None\<close> is \<open>undefined\<close>.\<close>

fun truthy :: "json option \<Rightarrow> bool" where
  "truthy None = False"
| "truthy (Some JNull) = False"
| "truthy (Some (JBool b)) = b"
| "truthy (Some (JNum n)) = (n \<noteq> 0)"
| "truthy (Some (JBigInt n)) = (n \<noteq> 0)"
| "truthy (Some (JStr s)) = (s \<noteq> [])"
| "truthy (Some (JArr xs)) = True"
| "truthy (Some (JObj kvs)) = True"

subsection \<open>Number formatting\<close>

definition digit_char :: "nat \<Rightarrow> char" where
  "digit_char d = char_of (48 + d)"

definition hex_char :: "nat \<Rightarrow> char" where
  "hex_char d = (if d < 10 then char_of (48 + d) else char_of (87 + d))"

function show_nat :: "nat \<Rightarrow> string" where
  "show_nat n = (if n < 10 then [digit_char n] else show_nat (n div 10) @ [digit_char (n mod 10)])"
  by pat_completeness auto
termination
  by (relation "measure id") auto

declare show_nat.simps [simp del]

function show_hex :: "nat \<Rightarrow> string" where
  "show_hex n = (if n < 16 then [hex_char n] else show_hex (n div 16) @ [hex_char (n mod 16)])"
  by pat_completeness auto
termination
  by (relation "measure id") auto

declare show_hex.simps [simp del]

definition show_int :: "int \<Rightarrow> string" where
  "show_int i = (if i < 0 then CHR ''-'' # show_nat (nat (- i)) else show_nat (nat i))"

text \<open>
  \<open>Number.prototype.toFixed(2)\<close>: the sign, then the integer \<open>n\<close> for which \<open>n / 100\<close> is
  nearest to the magnitude (the larger one on a tie), written with two decimals. The
  result is a string. (Magnitudes of \<open>10^21\<close> and more, which print in exponent
  notation, do not occur here.)
\<close>

definition toFixed2 :: "rat \<Rightarrow> string" where
  "toFixed2 x =
     (let n = nat \<lfloor>\<bar>x\<bar> * 100 + 1 / 2\<rfloor> in
      (if x < 0 then ''-'' else '''') @ show_nat (n div 100) @ ''.'' @
      [digit_char (n div 10 mod 10), digit_char (n mod 10)])"

subsection \<open>\<open>JSON.stringify\<close>\<close>

text \<open>The characters \<open>"\<close> and \<open>\\<close>.\<close>

abbreviation dquote :: char where "dquote \<equiv> CHR 0x22"
abbreviation bslash :: char where "bslash \<equiv> CHR 0x5C"

text \<open>\<open>QuoteJSONString\<close>: the escapes of a single character.\<close>

definition json_escape :: "char \<Rightarrow> string" where
  "json_escape c =
     (if c = dquote then [bslash, dquote]
      else if c = bslash then [bslash, bslash]
      else if c = CHR 0x08 then [bslash, CHR ''b'']
      else if c = CHR 0x09 then [bslash, CHR ''t'']
      else if c = CHR 0x0A then [bslash, CHR ''n'']
      else if c = CHR 0x0C then [bslash, CHR ''f'']
      else if c = CHR 0x0D then [bslash, CHR ''r'']
      else if of_char c < (32 :: nat) then
        [bslash, CHR ''u'', CHR ''0'', CHR ''0'',
         hex_char (of_char c div 16), hex_char (of_char c mod 16)]
      else [c])"

definition json_quote :: "string \<Rightarrow> string" where
  "json_quote s = dquote # concat (map json_escape s) @ [dquote]"

fun join_comma :: "string list \<Rightarrow> string" where
  "join_comma [] = []"
| "join_comma [x] = x"
| "join_comma (x # y # ys) = x @ '','' @ join_comma (y # ys)"

text \<open>\<open>JSON.stringify\<close> throws a TypeError when it meets a BigInt anywhere in the value.\<close>

fun serializable :: "json \<Rightarrow> bool" where
  "serializable JNull = True"
| "serializable (JBool b) = True"
| "serializable (JNum n) = True"
| "serializable (JBigInt n) = False"
| "serializable (JStr s) = True"
| "serializable (JArr xs) = list_all serializable xs"
| "serializable (JObj kvs) = list_all (\<lambda>kv. serializable (snd kv)) kvs"

text \<open>The text \<open>JSON.stringify\<close> produces for a value it accepts. A BigInt has no
  text; the empty text stands in for it and \<open>stringify\<close> never returns it.\<close>

fun json_text :: "json \<Rightarrow> string" where
  "json_text JNull = ''null''"
| "json_text (JBool b) = (if b then ''true'' else ''false'')"
| "json_text (JNum n) = show_int n"
| "json_text (JBigInt n) = []"
| "json_text (JStr s) = json_quote s"
| "json_text (JArr xs) = ''['' @ join_comma (map json_text xs) @ '']''"
| "json_text (JObj kvs) =
     ''{'' @ join_comma (map (\<lambda>kv. json_quote (fst kv) @ '':'' @ json_text (snd kv)) kvs) @ ''}''"

definition stringify :: "json \<Rightarrow> js_error + string" where
  "stringify v = (if serializable v then Inr (json_text v) else Inl TypeError)"

section \<open>The cache fingerprint\<close>

text \<open>
  An image reference is a path (a JavaScript string) or a buffer of bytes. \<open>Nullish\<close> is
  \<open>undefined\<close> or \<open>null\<close> in its place: a value without properties, on which every
  property read throws a TypeError.
\<close>

datatype image = Path string | Buffer "char list" | Nullish

text \<open>
  \<^verbatim>\<open>getCacheKey(image, options)\<close>: the template literal
  \<^verbatim>\<open>`${image}-${JSON.stringify(options)}`\<close> for a string, and
  \<^verbatim>\<open>`buffer-${image.length}-${JSON.stringify(options)}`\<close> otherwise. It throws when
  \<open>image.length\<close> or \<open>JSON.stringify(options)\<close> does.
\<close>

definition getCacheKey :: "image \<Rightarrow> json \<Rightarrow> js_error + string" where
  "getCacheKey img options =
     (case img of
        Path p \<Rightarrow>
          (case stringify options of
             Inl e \<Rightarrow> Inl e
           | Inr s \<Rightarrow> Inr (p @ ''-'' @ s))
      | Buffer b \<Rightarrow>
          (case stringify options of
             Inl e \<Rightarrow> Inl e
           | Inr s \<Rightarrow> Inr (''buffer-'' @ show_nat (length b) @ ''-'' @ s))
      | Nullish \<Rightarrow> Inl TypeError)"

section \<open>The world outside the analyzer\<close>

text \<open>
  What a call reads from outside the program is an input of the model. Numbers are
  rationals (every finite double is one); arithmetic on them is exact, so the rounding
  of IEEE doubles is not modelled.
\<close>

text \<open>A JavaScript primitive that is a number or a string.\<close>

datatype jsprim = Num rat | Str string

text \<open>
  What one run of \<open>analyzeWithMockAI\<close> observes, in evaluation order: the values of
  its eight \<open>Math.random()\<close> calls and of \<open>new Date().toISOString()\<close>.
\<close>

record mock_inputs =
  rndObjects :: rat
  rndColors :: rat
  rndSentiment :: rat
  isoTime :: string
  rndConfidence :: rat
  rndText :: rat
  rndWidth :: rat
  rndHeight :: rat
  rndProcessing :: rat

text \<open>The outcome of \<open>await axios.post(...)\<close>: the promise rejects (network error,
  timeout, status outside 2xx) or resolves with a response body.\<close>

datatype 'a http_reply = Rejected | Resolved 'a

text \<open>
  A chat-completions body is \<open>OpenAIData content total_tokens\<close> when the reads
  \<open>data.choices[0].message.content\<close> (a string) and \<open>data.usage.total_tokens\<close> succeed;
  on any other body one of these reads, or \<open>text.toLowerCase()\<close>, throws a TypeError.
\<close>

datatype openai_data = OpenAIMalformed | OpenAIData string rat

text \<open>
  An annotate body is well formed when \<open>data.responses[0]\<close> is an object, so that
  \<open>parseGoogleVisionResponse\<close> returns; otherwise its first property read throws a
  TypeError.
\<close>

datatype google_data = GoogleMalformed | GoogleWellFormed

record world =
  clockStart :: int
  clockEnd :: int
  statSize :: "string \<Rightarrow> nat option"
  readFile :: "string \<Rightarrow> string option"
  extname :: "string \<Rightarrow> string"
  mockDispatch :: mock_inputs
  mockFallback :: mock_inputs
  openaiPost :: "openai_data http_reply"
  googlePost :: "google_data http_reply"
  backendTime :: string
  colorDraw :: "nat \<Rightarrow> rat"

text \<open>
  \<open>clockStart\<close> and \<open>clockEnd\<close> are the two \<open>Date.now()\<close> readings of \<open>analyzeImage\<close>;
  \<open>statSize\<close> is \<open>fs.statSync(p).size\<close> and \<open>readFile\<close> is \<open>fs.readFileSync(p)\<close>, \<open>None\<close>
  when they throw; \<open>extname\<close> is \<open>path.extname\<close>; \<open>mockDispatch\<close> feeds the mock
  generator when it is the dispatched backend and \<open>mockFallback\<close> when it runs in the
  \<open>catch\<close> block; \<open>backendTime\<close> is the timestamp of a remote backend's result and
  \<open>colorDraw i\<close> the \<open>i\<close>-th \<open>Math.random()\<close> of \<open>extractColorsFromText\<close>.
\<close>

section \<open>Results\<close>

record metadata =
  width :: int
  height :: int
  format :: string
  size_m :: nat

record mock_analysis =
  objects :: "string list option"
  colors :: "string list option"
  sentiment :: "string option"
  confidence :: jsprim
  text_m :: "string option"
  metadata :: metadata

record openai_analysis =
  description :: string
  objects_o :: "string list"
  colors_o :: "string list"
  sentiment_o :: string
  confidence_o :: jsprim
  text_o :: string

datatype analysis =
    MockAnalysis mock_analysis
  | OpenAIAnalysis openai_analysis
  | GoogleAnalysis

record result =
  success :: bool
  mode :: string
  timestamp :: string
  analysis :: analysis
  rawResponse :: "openai_data option"
  processingTime :: rat

section \<open>The mock generator\<close>

text \<open>\<open>xs[Math.floor(r * xs.length)]\<close>; an index outside the array reads \<open>undefined\<close>.\<close>

definition pick :: "'a list \<Rightarrow> rat \<Rightarrow> 'a option" where
  "pick xs r =
     (let i = \<lfloor>r * of_nat (length xs)\<rfloor> in
      if 0 \<le> i \<and> i < int (length xs) then Some (xs ! nat i) else None)"

definition getRandomObjects :: "rat \<Rightarrow> string list option" where
  "getRandomObjects r = pick
     [[''person'', ''computer'', ''desk'', ''chair'', ''window''],
      [''car'', ''road'', ''tree'', ''building'', ''sky''],
      [''dog'', ''cat'', ''grass'', ''house'', ''fence''],
      [''food'', ''plate'', ''table'', ''utensils'', ''drink''],
      [''mountain'', ''lake'', ''forest'', ''clouds'', ''sun'']] r"

definition getRandomColors :: "rat \<Rightarrow> string list option" where
  "getRandomColors r = pick
     [[''#2d3748'', ''#4a5568'', ''#718096'', ''#a0aec0'', ''#cbd5e0''],
      [''#667eea'', ''#764ba2'', ''#f687b3'', ''#fed7e2'', ''#fff5f7''],
      [''#38a169'', ''#48bb78'', ''#68d391'', ''#9ae6b4'', ''#c6f6d5''],
      [''#dd6b20'', ''#ed8936'', ''#f6ad55'', ''#fbd38d'', ''#feebc8''],
      [''#3182ce'', ''#4299e1'', ''#63b3ed'', ''#90cdf4'', ''#bee3f8'']] r"

definition getRandomSentiment :: "rat \<Rightarrow> string option" where
  "getRandomSentiment r = pick [''positive'', ''neutral'', ''negative'', ''mixed''] r"

definition getRandomText :: "rat \<Rightarrow> string option" where
  "getRandomText r = pick
     [''A person working at a computer in a modern office environment.'',
      ''Beautiful landscape with mountains and a lake under clear skies.'',
      ''Delicious looking food arranged beautifully on a plate.'',
      ''Urban cityscape with tall buildings and busy streets.'',
      ''Cute pets playing together in a green garden.''] r"

text \<open>
  \<open>analyzeWithMockAI(image, options)\<close>. The only step that can throw is the one that
  computes \<open>size\<close>: \<open>fs.statSync(image)\<close> on a path, \<open>image.length\<close> otherwise.
  \<open>confidence\<close> is the result of \<open>toFixed(2)\<close>.
\<close>

definition analyzeWithMockAI :: "world \<Rightarrow> mock_inputs \<Rightarrow> image \<Rightarrow> js_error + result" where
  "analyzeWithMockAI w mi img =
     (let objs = getRandomObjects (rndObjects mi);
          cols = getRandomColors (rndColors mi);
          sent = getRandomSentiment (rndSentiment mi);
          conf = Str (toFixed2 (rndConfidence mi * (3 / 10) + 7 / 10));
          txt = getRandomText (rndText mi);
          wd = \<lfloor>rndWidth mi * 1000\<rfloor> + 800;
          ht = \<lfloor>rndHeight mi * 800\<rfloor> + 600;
          ext = drop 1 (extname w (case img of Path p \<Rightarrow> p | Buffer b \<Rightarrow> ''image.jpg''
                                     | Nullish \<Rightarrow> ''image.jpg''));
          fmt = (if ext = [] then ''jpg'' else ext)
      in case (case img of
                 Path p \<Rightarrow> (case statSize w p of None \<Rightarrow> Inl FsError | Some n \<Rightarrow> Inr n)
               | Buffer b \<Rightarrow> Inr (length b)
               | Nullish \<Rightarrow> Inl TypeError) of
           Inl e \<Rightarrow> Inl e
         | Inr sz \<Rightarrow> Inr \<lparr>
             success = True,
             mode = ''mock'',
             timestamp = isoTime mi,
             analysis = MockAnalysis \<lparr>
               objects = objs, colors = cols, sentiment = sent, confidence = conf,
               text_m = txt,
               metadata = \<lparr> width = wd, height = ht, format = fmt, size_m = sz \<rparr> \<rparr>,
             rawResponse = None,
             processingTime = rndProcessing mi * 500 + 100 \<rparr>)"

section \<open>The remote backends\<close>

subsection \<open>String helpers\<close>

text \<open>\<open>String.prototype.toLowerCase\<close> on ASCII letters.\<close>

definition lower_char :: "char \<Rightarrow> char" where
  "lower_char c =
     (let n = (of_char c :: nat) in if 65 \<le> n \<and> n \<le> 90 then char_of (n + 32) else c)"

definition toLowerCase :: "string \<Rightarrow> string" where
  "toLowerCase s = map lower_char s"

fun starts_with :: "string \<Rightarrow> string \<Rightarrow> bool" where
  "starts_with s [] = True"
| "starts_with [] (c # cs) = False"
| "starts_with (x # xs) (c # cs) = (x = c \<and> starts_with xs cs)"

text \<open>\<open>s.includes(t)\<close>: \<open>t\<close> occurs in \<open>s\<close> as a substring.\<close>

fun includes_str :: "string \<Rightarrow> string \<Rightarrow> bool" where
  "includes_str [] t = (t = [])"
| "includes_str (x # xs) t = (starts_with (x # xs) t \<or> includes_str xs t)"

subsection \<open>OpenAI\<close>

definition extractObjectsFromText :: "string \<Rightarrow> string list" where
  "extractObjectsFromText txt =
     filter (\<lambda>obj. includes_str (toLowerCase txt) obj)
       [''person'', ''computer'', ''car'', ''tree'', ''building'', ''dog'', ''cat'', ''food'',
        ''mountain'', ''water'']"

definition extractColorsFromText :: "world \<Rightarrow> string \<Rightarrow> string list" where
  "extractColorsFromText w txt =
     (let found = filter (\<lambda>color. includes_str (toLowerCase txt) color)
            [''red'', ''blue'', ''green'', ''yellow'', ''black'', ''white'', ''gray'', ''brown'',
             ''orange'', ''purple'']
      in map (\<lambda>i. CHR ''#'' # show_hex (nat \<lfloor>colorDraw w i * 16777215\<rfloor>)) [0..<length found])"

definition analyzeSentiment :: "string \<Rightarrow> string" where
  "analyzeSentiment txt =
     (let lowerText = toLowerCase txt;
          positiveCount = length (filter (\<lambda>word. includes_str lowerText word)
            [''good'', ''great'', ''excellent'', ''happy'', ''beautiful'', ''wonderful'', ''amazing'']);
          negativeCount = length (filter (\<lambda>word. includes_str lowerText word)
            [''bad'', ''poor'', ''sad'', ''ugly'', ''terrible'', ''awful'', ''horrible''])
      in if positiveCount > negativeCount then ''positive''
         else if negativeCount > positiveCount then ''negative''
         else ''neutral'')"

definition parseOpenAIResponse :: "world \<Rightarrow> string \<Rightarrow> openai_analysis" where
  "parseOpenAIResponse w txt = \<lparr>
     description = txt,
     objects_o = extractObjectsFromText txt,
     colors_o = extractColorsFromText w txt,
     sentiment_o = analyzeSentiment txt,
     confidence_o = Num (85 / 100),
     text_o = take 200 txt @ ''...'' \<rparr>"

text \<open>
  The read \<open>v.k\<close> for a property name that no primitive or array has: a TypeError on
  \<open>undefined\<close> and \<open>null\<close>, the property of an object, \<open>undefined\<close> otherwise.
\<close>

definition member :: "json option \<Rightarrow> string \<Rightarrow> js_error + json option" where
  "member v k =
     (case v of
        None \<Rightarrow> Inl TypeError
      | Some JNull \<Rightarrow> Inl TypeError
      | Some (JObj kvs) \<Rightarrow> Inr (obj_get kvs k)
      | Some _ \<Rightarrow> Inr None)"

text \<open>
  The block that both remote backends start with: \<open>fs.readFileSync(image)\<close> for a
  string, \<open>image.toString('base64')\<close> otherwise.
\<close>

definition loadImage :: "world \<Rightarrow> image \<Rightarrow> js_error + string" where
  "loadImage w img =
     (case img of
        Path p \<Rightarrow> (case readFile w p of None \<Rightarrow> Inl FsError | Some d \<Rightarrow> Inr d)
      | Buffer b \<Rightarrow> Inr b
      | Nullish \<Rightarrow> Inl TypeError)"

text \<open>
  \<open>analyzeWithOpenAI(image, options)\<close>. The request body reads \<open>options.prompt\<close> and
  \<open>options.maxTokens\<close> before the request is sent.
\<close>

definition analyzeWithOpenAI :: "jobject \<Rightarrow> world \<Rightarrow> image \<Rightarrow> json \<Rightarrow> js_error + result" where
  "analyzeWithOpenAI cfg w img options =
     (case member (obj_get cfg ''openai'') ''apiKey'' of
        Inl e \<Rightarrow> Inl e
      | Inr apiKey \<Rightarrow>
          if \<not> truthy apiKey then Inl (ErrorMsg ''OpenAI API key not configured'')
          else
            (case loadImage w img of
               Inl e \<Rightarrow> Inl e
             | Inr imageData \<Rightarrow>
                 (case member (Some options) ''prompt'' of
                    Inl e \<Rightarrow> Inl e
                  | Inr prompt \<Rightarrow>
                      (case openaiPost w of
                         Rejected \<Rightarrow> Inl HttpError
                       | Resolved OpenAIMalformed \<Rightarrow> Inl TypeError
                       | Resolved (OpenAIData content total_tokens) \<Rightarrow> Inr \<lparr>
                           success = True,
                           mode = ''openai'',
                           timestamp = backendTime w,
                           analysis = OpenAIAnalysis (parseOpenAIResponse w content),
                           rawResponse = Some (OpenAIData content total_tokens),
                           processingTime = total_tokens \<rparr>))))"

subsection \<open>Google Cloud Vision\<close>

text \<open>
  The identifiers bound where the body of \<open>analyzeWithGoogleVision\<close> is evaluated: its
  parameters and locals, the declarations and imports of the module, and the names of
  Node's module wrapper and global object that the module uses. Neither file of the
  repository adds a property to the global object.
\<close>

definition googleVisionScope :: "string list" where
  "googleVisionScope =
     [''image'', ''options'', ''imageData'', ''features'', ''response'',
      ''fs'', ''path'', ''axios'', ''AIImageAnalyzer'', ''aiAnalyzer'',
      ''require'', ''module'', ''exports'', ''console'', ''Date'', ''Math'', ''JSON'', ''Error'']"

text \<open>Reading an identifier that no scope binds throws a ReferenceError.\<close>

definition resolveIdentifier :: "string list \<Rightarrow> string \<Rightarrow> js_error + unit" where
  "resolveIdentifier scope x = (if x \<in> set scope then Inr () else Inl (ReferenceError x))"

text \<open>
  \<open>analyzeWithGoogleVision(image, options)\<close>. The returned object literal evaluates its
  properties in order: \<open>parseGoogleVisionResponse(response.data.responses[0])\<close>, whose
  value is \<open>GoogleAnalysis\<close>, and last \<open>Date.now() - startTime\<close>.
\<close>

definition analyzeWithGoogleVision :: "jobject \<Rightarrow> world \<Rightarrow> image \<Rightarrow> json \<Rightarrow> js_error + result" where
  "analyzeWithGoogleVision cfg w img options =
     (case member (obj_get cfg ''google'') ''apiKey'' of
        Inl e \<Rightarrow> Inl e
      | Inr apiKey \<Rightarrow>
          if \<not> truthy apiKey then Inl (ErrorMsg ''Google Vision API key not configured'')
          else
            (case loadImage w img of
               Inl e \<Rightarrow> Inl e
             | Inr imageData \<Rightarrow>
                 (case googlePost w of
                    Rejected \<Rightarrow> Inl HttpError
                  | Resolved GoogleMalformed \<Rightarrow> Inl TypeError
                  | Resolved GoogleWellFormed \<Rightarrow>
                      (case resolveIdentifier googleVisionScope ''startTime'' of
                         Inl e \<Rightarrow> Inl e
                       | Inr u \<Rightarrow> Inr \<lparr>
                           success = True,
                           mode = ''google'',
                           timestamp = backendTime w,
                           analysis = GoogleAnalysis,
                           rawResponse = None,
                           processingTime = of_int (clockEnd w - clockStart w) \<rparr>))))"

subsection \<open>Local\<close>

definition analyzeWithLocalAI :: "world \<Rightarrow> image \<Rightarrow> js_error + result" where
  "analyzeWithLocalAI w img = analyzeWithMockAI w (mockDispatch w) img"

section \<open>The analyzer\<close>

record stats =
  totalRequests :: nat
  successful :: nat
  failed :: nat
  cacheHits :: nat
  averageResponseTime :: rat

record analyzer =
  config :: jobject
  cache :: "(string \<times> result) list"
  stats :: stats

text \<open>\<open>x || d\<close>.\<close>

definition or_default :: "json option \<Rightarrow> json \<Rightarrow> json" where
  "or_default x d = (case x of Some v \<Rightarrow> (if truthy x then v else d) | None \<Rightarrow> d)"

text \<open>\<open>new AIImageAnalyzer(config)\<close>.\<close>

definition AIImageAnalyzer :: "jobject \<Rightarrow> analyzer" where
  "AIImageAnalyzer cfg = \<lparr>
     config =
       [(''mode'', or_default (obj_get cfg ''mode'') (JStr ''mock'')),
        (''openai'', or_default (obj_get cfg ''openai'')
           (JObj [(''apiKey'', JStr []), (''model'', JStr ''gpt-4-vision-preview'')])),
        (''google'', or_default (obj_get cfg ''google'')
           (JObj [(''apiKey'', JStr []), (''projectId'', JStr [])])),
        (''local'', or_default (obj_get cfg ''local'')
           (JObj [(''useLocal'', JBool False), (''modelPath'', JStr ''./models'')])),
        (''maxRetries'', or_default (obj_get cfg ''maxRetries'') (JNum 3)),
        (''timeout'', or_default (obj_get cfg ''timeout'') (JNum 30000)),
        (''cacheResults'', JBool (obj_get cfg ''cacheResults'' \<noteq> Some (JBool False)))],
     cache = [],
     stats = \<lparr> totalRequests = 0, successful = 0, failed = 0, cacheHits = 0,
               averageResponseTime = 0 \<rparr> \<rparr>"

text \<open>The \<open>switch (this.config.mode)\<close> of \<open>analyzeImage\<close>.\<close>

definition dispatch :: "jobject \<Rightarrow> world \<Rightarrow> image \<Rightarrow> json \<Rightarrow> js_error + result" where
  "dispatch cfg w img options =
     (let m = obj_get cfg ''mode'' in
      if m = Some (JStr ''openai'') then analyzeWithOpenAI cfg w img options
      else if m = Some (JStr ''google'') then analyzeWithGoogleVision cfg w img options
      else if m = Some (JStr ''local'') then analyzeWithLocalAI w img
      else analyzeWithMockAI w (mockDispatch w) img)"

text \<open>The test \<open>this.config.cacheResults && this.cache.has(cacheKey)\<close>.\<close>

definition cacheHit :: "analyzer \<Rightarrow> string \<Rightarrow> bool" where
  "cacheHit a cacheKey =
     (truthy (obj_get (config a) ''cacheResults'') \<and> obj_get (cache a) cacheKey \<noteq> None)"

text \<open>
  \<open>analyzeImage(image, options)\<close>, one call run to completion: the value the promise
  settles with (\<open>Inl\<close> when it rejects) and the analyzer afterwards. The fingerprint is
  computed after \<open>totalRequests++\<close> and before the \<open>try\<close> block, so when it throws the call
  rejects at once.
\<close>

definition analyzeImage :: "world \<Rightarrow> image \<Rightarrow> json \<Rightarrow> analyzer \<Rightarrow> (js_error + result) \<times> analyzer" where
  "analyzeImage w img options a =
     (let a1 = a\<lparr>stats := (stats a)\<lparr>totalRequests := totalRequests (stats a) + 1\<rparr>\<rparr>
      in case getCacheKey img options of
           Inl err \<Rightarrow> (Inl err, a1)
         | Inr cacheKey \<Rightarrow>
             (case (if truthy (obj_get (config a1) ''cacheResults'')
                    then obj_get (cache a1) cacheKey else None) of
                Some cached \<Rightarrow>
                  (Inr cached, a1\<lparr>stats := (stats a1)\<lparr>cacheHits := cacheHits (stats a1) + 1\<rparr>\<rparr>)
              | None \<Rightarrow>
                  (case dispatch (config a1) w img options of
                     Inr res \<Rightarrow>
                       (let responseTime = clockEnd w - clockStart w;
                            a2 = a1\<lparr>stats := (stats a1)\<lparr>
                                   averageResponseTime :=
                                     (averageResponseTime (stats a1)
                                        * of_nat (successful (stats a1))
                                        + of_int responseTime)
                                     / (of_nat (successful (stats a1)) + 1),
                                   successful := successful (stats a1) + 1\<rparr>\<rparr>;
                            a3 = (if truthy (obj_get (config a2) ''cacheResults'')
                                  then a2\<lparr>cache := obj_set (cache a2) cacheKey res\<rparr> else a2)
                        in (Inr res, a3))
                   | Inl err \<Rightarrow>
                       (analyzeWithMockAI w (mockFallback w) img,
                        a1\<lparr>stats := (stats a1)\<lparr>failed := failed (stats a1) + 1\<rparr>\<rparr>))))"

record stats_report = stats +
  cacheSize :: nat
  mode_r :: "json option"
  cacheEnabled :: "json option"

definition getStats :: "analyzer \<Rightarrow> stats_report" where
  "getStats a = stats.extend (stats a)
     \<lparr> cacheSize = length (cache a),
       mode_r = obj_get (config a) ''mode'',
       cacheEnabled = obj_get (config a) ''cacheResults'' \<rparr>"

definition clearCache :: "analyzer \<Rightarrow> analyzer" where
  "clearCache a = a\<lparr>cache := []\<rparr>"

definition updateConfig :: "jobject \<Rightarrow> analyzer \<Rightarrow> analyzer" where
  "updateConfig newConfig a = a\<lparr>config := spread2 (config a) newConfig\<rparr>"

subsection \<open>Sequences of operations\<close>

datatype operation =
    AnalyzeImage world image json
  | GetStats
  | ClearCache
  | UpdateConfig jobject

fun step :: "analyzer \<Rightarrow> operation \<Rightarrow> analyzer" where
  "step a (AnalyzeImage w img options) = snd (analyzeImage w img options a)"
| "step a GetStats = a"
| "step a ClearCache = clearCache a"
| "step a (UpdateConfig newConfig) = updateConfig newConfig a"

definition run :: "analyzer \<Rightarrow> operation list \<Rightarrow> analyzer" where
  "run a ops = foldl step a ops"

fun isAnalyzeImage :: "operation \<Rightarrow> bool" where
  "isAnalyzeImage (AnalyzeImage w img options) = True"
| "isAnalyzeImage GetStats = False"
| "isAnalyzeImage ClearCache = False"
| "isAnalyzeImage (UpdateConfig newConfig) = False"

section \<open>Predicates used in the statements\<close>

text \<open>A JavaScript object has each property name once.\<close>

definition wellFormedObject :: "(string \<times> 'a) list \<Rightarrow> bool" where
  "wellFormedObject kvs = distinct (map fst kvs)"

text \<open>The substituted mock generation does not throw: \<open>fs.statSync\<close> succeeds on a
  path; a buffer needs no file.\<close>

definition mockReadable :: "world \<Rightarrow> image \<Rightarrow> bool" where
  "mockReadable w img =
     (case img of Path p \<Rightarrow> statSize w p \<noteq> None | Buffer b \<Rightarrow> True | Nullish \<Rightarrow> False)"

text \<open>The read \<open>this.config.openai.apiKey\<close> succeeds and is truthy.\<close>

definition openaiKeyConfigured :: "jobject \<Rightarrow> bool" where
  "openaiKeyConfigured cfg =
     (case member (obj_get cfg ''openai'') ''apiKey'' of Inl e \<Rightarrow> False | Inr v \<Rightarrow> truthy v)"

definition statsInvariant :: "stats \<Rightarrow> bool" where
  "statsInvariant st = (totalRequests st = successful st + failed st + cacheHits st)"

definition isMockResult :: "result \<Rightarrow> bool" where
  "isMockResult r = (success r \<and> mode r = ''mock'')"

text \<open>The four counters of the statistics record.\<close>

definition counters :: "stats \<Rightarrow> nat \<times> nat \<times> nat \<times> nat" where
  "counters st = (totalRequests st, successful st, failed st, cacheHits st)"

text \<open>A remote backend can load the image: \<open>fs.readFileSync\<close> succeeds on a path.\<close>

definition imageLoads :: "world \<Rightarrow> image \<Rightarrow> bool" where
  "imageLoads w img = (case loadImage w img of Inl e \<Rightarrow> False | Inr d \<Rightarrow> True)"


text \<open>The fingerprint of an operation can be computed: every operation but an
  \<open>analyzeImage\<close> call whose \<open>getCacheKey\<close> throws.\<close>

fun fingerprintComputes :: "operation \<Rightarrow> bool" where
  "fingerprintComputes (AnalyzeImage w img options) =
     (case getCacheKey img options of Inl e \<Rightarrow> False | Inr k \<Rightarrow> True)"
| "fingerprintComputes GetStats = True"
| "fingerprintComputes ClearCache = True"
| "fingerprintComputes (UpdateConfig newConfig) = True"

text \<open>The reads \<open>result.analysis.confidence\<close> and \<open>result.analysis.sentiment\<close>.\<close>

definition resultConfidence :: "result \<Rightarrow> jsprim option" where
  "resultConfidence r =
     (case analysis r of
        MockAnalysis m \<Rightarrow> Some (confidence m)
      | OpenAIAnalysis oa \<Rightarrow> Some (confidence_o oa)
      | GoogleAnalysis \<Rightarrow> None)"

definition resultSentiment :: "result \<Rightarrow> string option" where
  "resultSentiment r =
     (case analysis r of
        MockAnalysis m \<Rightarrow> sentiment m
      | OpenAIAnalysis oa \<Rightarrow> Some (sentiment_o oa)
      | GoogleAnalysis \<Rightarrow> None)"

section \<open>A scanner for JSON text\<close>


definition is_digit :: "char \<Rightarrow> bool" where
  "is_digit c = (48 \<le> (of_char c :: nat) \<and> (of_char c :: nat) \<le> 57)"




section \<open>Reading JSON text back\<close>

text \<open>
  Devices for the proof that the text of a value determines the value: the number a
  digit string denotes, the characters that can follow a value inside an array or an
  object, the kind of value that the first character of a text announces, and the
  character that a two-character escape stands for.
\<close>

definition digit_val :: "char \<Rightarrow> nat" where
  "digit_val c = of_char c - 48"

definition digits_val :: "string \<Rightarrow> nat" where
  "digits_val ds = foldl (\<lambda>acc c. 10 * acc + digit_val c) 0 ds"

fun ends_value :: "string \<Rightarrow> bool" where
  "ends_value [] = True"
| "ends_value (c # cs) = (c = CHR '','' \<or> c = CHR '']'' \<or> c = CHR ''}'')"

fun value_kind :: "json \<Rightarrow> nat" where
  "value_kind JNull = 0"
| "value_kind (JBool b) = 1"
| "value_kind (JNum n) = 2"
| "value_kind (JBigInt n) = 2"
| "value_kind (JStr s) = 3"
| "value_kind (JArr xs) = 4"
| "value_kind (JObj kvs) = 5"

fun text_kind :: "string \<Rightarrow> nat" where
  "text_kind [] = 2"
| "text_kind (c # cs) =
     (if c = CHR ''n'' then 0
      else if c = CHR ''t'' \<or> c = CHR ''f'' then 1
      else if c = dquote then 3
      else if c = CHR ''['' then 4
      else if c = CHR ''{'' then 5
      else 2)"

definition short_escape_source :: "char \<Rightarrow> char" where
  "short_escape_source x =
     (if x = dquote then dquote else if x = bslash then bslash
      else if x = CHR ''b'' then CHR 0x08 else if x = CHR ''t'' then CHR 0x09
      else if x = CHR ''n'' then CHR 0x0A else if x = CHR ''f'' then CHR 0x0C
      else CHR 0x0D)"

section \<open>Concrete worlds and analyzers\<close>

definition exampleDraws :: mock_inputs where
  "exampleDraws = \<lparr> rndObjects = 1 / 2, rndColors = 1 / 4, rndSentiment = 3 / 4,
     isoTime = ''2026-02-19T10:30:00.000Z'', rndConfidence = 1 / 2, rndText = 0,
     rndWidth = 1 / 10, rndHeight = 9 / 10, rndProcessing = 1 / 5 \<rparr>"

definition otherDraws :: mock_inputs where
  "otherDraws = \<lparr> rndObjects = 0, rndColors = 0, rndSentiment = 0,
     isoTime = ''2026-02-19T10:30:01.000Z'', rndConfidence = 0, rndText = 1 / 2,
     rndWidth = 0, rndHeight = 0, rndProcessing = 0 \<rparr>"

text \<open>A world with one file, \<open>./cat.jpg\<close> of 2048 bytes, in which both remote services
  answer with a well-formed body.\<close>

definition exampleWorld :: world where
  "exampleWorld = \<lparr> clockStart = 1000, clockEnd = 1250,
     statSize = (\<lambda>p. if p = ''./cat.jpg'' then Some 2048 else None),
     readFile = (\<lambda>p. if p = ''./cat.jpg'' then Some ''JFIF'' else None),
     extname = (\<lambda>p. if p = ''./cat.jpg'' \<or> p = ''image.jpg'' then ''.jpg'' else []),
     mockDispatch = exampleDraws, mockFallback = otherDraws,
     openaiPost = Resolved (OpenAIData ''A happy dog on green grass.'' 321),
     googlePost = Resolved GoogleWellFormed,
     backendTime = ''2026-02-19T10:30:02.000Z'',
     colorDraw = (\<lambda>i. 1 / 2) \<rparr>"

text \<open>The same world a little later, with other random draws for the fallback.\<close>

definition laterWorld :: world where
  "laterWorld = exampleWorld\<lparr> clockStart := 2000, clockEnd := 2100,
     mockDispatch := otherDraws, mockFallback := exampleDraws \<rparr>"

definition defaultAnalyzer :: analyzer where
  "defaultAnalyzer = AIImageAnalyzer []"

definition openaiNoKey :: analyzer where
  "openaiNoKey = updateConfig [(''mode'', JStr ''openai'')] defaultAnalyzer"

definition googleWithKey :: analyzer where
  "googleWithKey =
     updateConfig [(''mode'', JStr ''google''), (''google'', JObj [(''apiKey'', JStr ''g-1'')])]
       defaultAnalyzer"

section \<open>Auxiliary facts\<close>

subsection \<open>Objects\<close>

lemma obj_get_obj_set:
  "obj_get (obj_set kvs k v) k' = (if k' = k then Some v else obj_get kvs k')"
  by (induction kvs) auto

lemma obj_get_None_iff: "obj_get kvs k = None \<longleftrightarrow> k \<notin> set (map fst kvs)"
  by (induction kvs) (auto split: if_splits)

lemma keys_obj_set: "fst ` set (obj_set kvs k v) = insert k (fst ` set kvs)"
proof (induction kvs)
  case Nil
  show ?case by simp
next
  case (Cons kv kvs)
  obtain k0 v0 where kv: "kv = (k0, v0)" by (cases kv)
  show ?case
  proof (cases "k0 = k")
    case True
    then show ?thesis by (simp add: kv)
  next
    case False
    with Cons.IH show ?thesis by (simp add: kv insert_commute)
  qed
qed

lemma distinct_obj_set:
  "distinct (map fst kvs) \<Longrightarrow> distinct (map fst (obj_set kvs k v))"
proof (induction kvs)
  case Nil
  show ?case by simp
next
  case (Cons kv kvs)
  obtain k0 v0 where kv: "kv = (k0, v0)" by (cases kv)
  from Cons show ?case
    using keys_obj_set [of kvs k v] by (auto simp: kv)
qed

lemma distinct_spread_into:
  "distinct (map fst target) \<Longrightarrow> distinct (map fst (spread_into target src))"
  unfolding spread_into_def
  by (induction src arbitrary: target) (simp_all add: distinct_obj_set)

lemma obj_get_spread_into:
  "distinct (map fst src) \<Longrightarrow>
   obj_get (spread_into target src) k =
     (case obj_get src k of Some v \<Rightarrow> Some v | None \<Rightarrow> obj_get target k)"
proof (induction src arbitrary: target)
  case Nil
  show ?case by (simp add: spread_into_def)
next
  case (Cons kv src)
  obtain k0 v0 where kv: "kv = (k0, v0)" by (cases kv)
  from Cons.prems have d: "distinct (map fst src)" and k0: "k0 \<notin> set (map fst src)"
    by (auto simp: kv)
  have unfold: "spread_into target ((k0, v0) # src) = spread_into (obj_set target k0 v0) src"
    by (simp add: spread_into_def)
  have step: "obj_get (spread_into target ((k0, v0) # src)) k =
      (case obj_get src k of Some v \<Rightarrow> Some v | None \<Rightarrow> obj_get (obj_set target k0 v0) k)"
    unfolding unfold by (rule Cons.IH [OF d])
  show ?case
  proof (cases "k = k0")
    case True
    with k0 have "obj_get src k = None" by (simp add: obj_get_None_iff)
    with True show ?thesis
      unfolding kv step by (simp add: obj_get_obj_set)
  next
    case False
    then show ?thesis
      unfolding kv step by (simp add: obj_get_obj_set split: option.splits)
  qed
qed

lemma obj_get_spread2:
  assumes "wellFormedObject a" and "wellFormedObject b"
  shows "obj_get (spread2 a b) k =
           (case obj_get b k of Some v \<Rightarrow> Some v | None \<Rightarrow> obj_get a k)"
  using assms
  by (simp add: spread2_def wellFormedObject_def obj_get_spread_into split: option.splits)

lemma wellFormed_spread2: "wellFormedObject (spread2 a b)"
  by (simp add: spread2_def wellFormedObject_def distinct_spread_into)

subsection \<open>The four ways through analyzeImage\<close>

lemma analyzeImage_throws:
  assumes "getCacheKey img options = Inl e"
  shows "analyzeImage w img options a =
           (Inl e, a\<lparr>stats := (stats a)\<lparr>totalRequests := totalRequests (stats a) + 1\<rparr>\<rparr>)"
  using assms by (simp add: analyzeImage_def Let_def)

lemma analyzeImage_hit:
  assumes "getCacheKey img options = Inr k"
    and "truthy (obj_get (config a) ''cacheResults'')"
    and "obj_get (cache a) k = Some r"
  shows "analyzeImage w img options a =
           (Inr r, a\<lparr>stats := (stats a)\<lparr>totalRequests := totalRequests (stats a) + 1,
                                         cacheHits := cacheHits (stats a) + 1\<rparr>\<rparr>)"
  using assms by (simp add: analyzeImage_def Let_def)

lemma analyzeImage_fresh:
  assumes "getCacheKey img options = Inr k"
    and "\<not> cacheHit a k"
    and "dispatch (config a) w img options = Inr r"
  shows "analyzeImage w img options a =
           (Inr r,
            a\<lparr>stats := (stats a)\<lparr>
                 totalRequests := totalRequests (stats a) + 1,
                 averageResponseTime :=
                   (averageResponseTime (stats a) * of_nat (successful (stats a))
                      + of_int (clockEnd w - clockStart w))
                   / (of_nat (successful (stats a)) + 1),
                 successful := successful (stats a) + 1\<rparr>,
              cache := (if truthy (obj_get (config a) ''cacheResults'')
                        then obj_set (cache a) k r else cache a)\<rparr>)"
  using assms by (auto simp: analyzeImage_def Let_def cacheHit_def)

lemma analyzeImage_fallback:
  assumes "getCacheKey img options = Inr k"
    and "\<not> cacheHit a k"
    and "dispatch (config a) w img options = Inl e"
  shows "analyzeImage w img options a =
           (analyzeWithMockAI w (mockFallback w) img,
            a\<lparr>stats := (stats a)\<lparr>totalRequests := totalRequests (stats a) + 1,
                                  failed := failed (stats a) + 1\<rparr>\<rparr>)"
  using assms by (auto simp: analyzeImage_def Let_def cacheHit_def)

lemma cacheHit_D:
  "cacheHit a k \<Longrightarrow>
     truthy (obj_get (config a) ''cacheResults'') \<and> (\<exists>r. obj_get (cache a) k = Some r)"
  by (auto simp: cacheHit_def)

lemma analyzeImage_config: "config (snd (analyzeImage w img options a)) = config a"
  by (auto simp: analyzeImage_def Let_def split: option.splits sum.splits)

lemma analyzeWithMockAI_readable:
  "mockReadable w img \<Longrightarrow> \<exists>r. analyzeWithMockAI w mi img = Inr r \<and> isMockResult r"
  by (auto simp: mockReadable_def analyzeWithMockAI_def Let_def isMockResult_def
      split: image.splits option.splits)

lemma analyzeWithMockAI_result:
  "analyzeWithMockAI w mi img = Inr r \<Longrightarrow> isMockResult r"
  by (auto simp: analyzeWithMockAI_def Let_def isMockResult_def
      split: image.splits option.splits sum.splits)

subsection \<open>JSON text and the scanner\<close>


lemma digit_char_is_digit: "d < 10 \<Longrightarrow> is_digit (digit_char d)"
  by (simp add: is_digit_def digit_char_def)

lemma show_nat_digits: "show_nat n \<noteq> [] \<and> list_all is_digit (show_nat n)"
proof (induction n rule: show_nat.induct)
  case (1 n)
  show ?case
  proof (cases "n < 10")
    case True
    then show ?thesis
      by (subst (1 2) show_nat.simps) (simp add: digit_char_is_digit)
  next
    case False
    with 1 show ?thesis
      by (subst (1 2) show_nat.simps) (simp add: digit_char_is_digit)
  qed
qed















subsection \<open>The text of a value determines the value\<close>

lemma show_nat_first: "\<exists>c r. show_nat n = c # r \<and> is_digit c"
  using show_nat_digits [of n] by (cases "show_nat n") simp_all

lemma show_int_first: "\<exists>c r. show_int i = c # r \<and> (c = CHR ''-'' \<or> is_digit c)"
  using show_nat_first [of "nat i"] by (auto simp: show_int_def)

lemma is_digit_kind: "is_digit c \<Longrightarrow> text_kind (c # cs) = 2"
  by (auto simp: is_digit_def)

lemma text_kind_json_text:
  assumes "serializable v"
  shows "text_kind (json_text v @ r) = value_kind v"
proof (cases v)
  case (JNum n)
  from show_int_first [of n] obtain c cs
    where "show_int n = c # cs" and "c = CHR ''-'' \<or> is_digit c" by blast
  then show ?thesis using JNum is_digit_kind [of c "cs @ r"] by auto
qed (use assms in \<open>simp_all add: json_quote_def\<close>)

lemma json_text_not_end:
  assumes "serializable v"
  shows "\<exists>c cs. json_text v = c # cs \<and> \<not> ends_value [c]"
proof (cases v)
  case (JNum n)
  from show_int_first [of n] obtain c cs
    where "show_int n = c # cs" and "c = CHR ''-'' \<or> is_digit c" by blast
  then show ?thesis using JNum by (auto simp: is_digit_def)
qed (use assms in \<open>simp_all add: json_quote_def\<close>)


subsubsection \<open>Numbers\<close>

lemma digit_val_digit_char: "d < 10 \<Longrightarrow> digit_val (digit_char d) = d"
  by (simp add: digit_val_def digit_char_def)

lemma digits_val_snoc: "digits_val (ds @ [c]) = 10 * digits_val ds + digit_val c"
  by (simp add: digits_val_def)

lemma digits_val_show_nat: "digits_val (show_nat n) = n"
proof (induction n rule: show_nat.induct)
  case (1 n)
  show ?case
  proof (cases "n < 10")
    case True
    then show ?thesis
      by (subst show_nat.simps) (simp add: digits_val_def digit_val_digit_char)
  next
    case False
    with 1 show ?thesis
      by (subst show_nat.simps) (simp add: digits_val_snoc digit_val_digit_char)
  qed
qed

lemma show_nat_inj: "show_nat m = show_nat n \<Longrightarrow> m = n"
  by (metis digits_val_show_nat)

lemma digits_split:
  assumes "list_all is_digit d1" and "list_all is_digit d2"
    and "d1 @ r1 = d2 @ r2"
    and "r1 = [] \<or> \<not> is_digit (hd r1)" and "r2 = [] \<or> \<not> is_digit (hd r2)"
  shows "d1 = d2 \<and> r1 = r2"
  using assms
proof (induction d1 arbitrary: d2)
  case Nil
  then show ?case by (cases d2) auto
next
  case (Cons x xs)
  show ?case
  proof (cases d2)
    case Nil
    with Cons.prems show ?thesis by auto
  next
    case (Cons y ys)
    with Cons.prems Cons.IH [of ys] show ?thesis by auto
  qed
qed

lemma ends_value_not_digit: "ends_value r \<Longrightarrow> r = [] \<or> \<not> is_digit (hd r)"
  by (cases r) (auto simp: is_digit_def)

lemma show_int_split:
  assumes "show_int i @ r1 = show_int j @ r2"
    and "r1 = [] \<or> \<not> is_digit (hd r1)" and "r2 = [] \<or> \<not> is_digit (hd r2)"
  shows "i = j \<and> r1 = r2"
proof -
  have dash: "\<not> is_digit (CHR ''-'')" by (simp add: is_digit_def)
  have digs: "list_all is_digit (show_nat n)" for n using show_nat_digits [of n] by simp
  consider "i < 0" "j < 0" | "i < 0" "\<not> j < 0" | "\<not> i < 0" "j < 0" | "\<not> i < 0" "\<not> j < 0"
    by blast
  then show ?thesis
  proof cases
    case 1
    with assms(1) have "show_nat (nat (- i)) @ r1 = show_nat (nat (- j)) @ r2"
      by (simp add: show_int_def)
    from digits_split [OF digs digs this assms(2,3)]
    have "nat (- i) = nat (- j)" and "r1 = r2" by (auto dest: show_nat_inj)
    with 1 show ?thesis by simp
  next
    case 2
    from show_nat_first [of "nat j"] obtain c cs
      where "show_nat (nat j) = c # cs" and "is_digit c" by blast
    with 2 assms(1) dash show ?thesis by (auto simp: show_int_def)
  next
    case 3
    from show_nat_first [of "nat i"] obtain c cs
      where "show_nat (nat i) = c # cs" and "is_digit c" by blast
    with 3 assms(1) dash show ?thesis by (auto simp: show_int_def)
  next
    case 4
    with assms(1) have "show_nat (nat i) @ r1 = show_nat (nat j) @ r2"
      by (simp add: show_int_def)
    from digits_split [OF digs digs this assms(2,3)]
    have "nat i = nat j" and "r1 = r2" by (auto dest: show_nat_inj)
    with 4 show ?thesis by simp
  qed
qed

subsubsection \<open>Strings\<close>

lemma of_char_hex_char:
  "d < 16 \<Longrightarrow> (of_char (hex_char d) :: nat) = (if d < 10 then 48 + d else 87 + d)"
  by (simp add: hex_char_def)

lemma hex_char_inj:
  assumes "a < 16" and "b < 16" and "hex_char a = hex_char b"
  shows "a = b"
proof -
  from assms(3) have "(of_char (hex_char a) :: nat) = of_char (hex_char b)" by simp
  with assms(1,2) show ?thesis
    by (simp add: of_char_hex_char split: if_splits)
qed

lemma hex_pair_inj:
  assumes "hex_char (of_char c1 div 16) = hex_char (of_char c2 div 16)"
    and "hex_char (of_char c1 mod 16) = hex_char (of_char c2 mod 16)"
  shows "c1 = c2"
proof -
  have small: "(of_char c :: nat) div 16 < 16" "(of_char c :: nat) mod 16 < 16" for c
  proof -
    have "(of_char c :: nat) < 256" by simp
    then show "(of_char c :: nat) div 16 < 16" "(of_char c :: nat) mod 16 < 16" by arith+
  qed
  from hex_char_inj [OF small(1) small(1) assms(1)] hex_char_inj [OF small(2) small(2) assms(2)]
  have "(of_char c1 :: nat) div 16 = of_char c2 div 16"
    and "(of_char c1 :: nat) mod 16 = of_char c2 mod 16" by simp_all
  then have "(of_char c1 :: nat) = of_char c2"
    by (metis div_mult_mod_eq)
  then show ?thesis by simp
qed

lemma json_escape_cases:
  obtains (plain) "json_escape c = [c]" "c \<noteq> dquote" "c \<noteq> bslash"
  | (short) x where "json_escape c = [bslash, x]" "x \<noteq> CHR ''u''" "c = short_escape_source x"
  | (long) "json_escape c = [bslash, CHR ''u'', CHR ''0'', CHR ''0'',
         hex_char (of_char c div 16), hex_char (of_char c mod 16)]"
proof -
  consider (q) "c = dquote" | (bs) "c = bslash" | (b) "c = CHR 0x08" | (t) "c = CHR 0x09"
    | (n) "c = CHR 0x0A" | (f) "c = CHR 0x0C" | (r) "c = CHR 0x0D"
    | (ctl) "c \<noteq> dquote" "c \<noteq> bslash" "c \<noteq> CHR 0x08" "c \<noteq> CHR 0x09" "c \<noteq> CHR 0x0A"
        "c \<noteq> CHR 0x0C" "c \<noteq> CHR 0x0D" "of_char c < (32 :: nat)"
    | (other) "c \<noteq> dquote" "c \<noteq> bslash" "c \<noteq> CHR 0x08" "c \<noteq> CHR 0x09" "c \<noteq> CHR 0x0A"
        "c \<noteq> CHR 0x0C" "c \<noteq> CHR 0x0D" "\<not> of_char c < (32 :: nat)"
    by blast
  then show thesis
  proof cases
    case q
    then show ?thesis
      by (intro short [of dquote]) (simp_all add: json_escape_def short_escape_source_def)
  next
    case bs
    then show ?thesis
      by (intro short [of bslash]) (simp_all add: json_escape_def short_escape_source_def)
  next
    case b
    then show ?thesis
      by (intro short [of "CHR ''b''"]) (simp_all add: json_escape_def short_escape_source_def)
  next
    case t
    then show ?thesis
      by (intro short [of "CHR ''t''"]) (simp_all add: json_escape_def short_escape_source_def)
  next
    case n
    then show ?thesis
      by (intro short [of "CHR ''n''"]) (simp_all add: json_escape_def short_escape_source_def)
  next
    case f
    then show ?thesis
      by (intro short [of "CHR ''f''"]) (simp_all add: json_escape_def short_escape_source_def)
  next
    case r
    then show ?thesis
      by (intro short [of "CHR ''r''"]) (simp_all add: json_escape_def short_escape_source_def)
  next
    case ctl
    then show ?thesis by (intro long) (simp add: json_escape_def)
  next
    case other
    then show ?thesis by (intro plain) (simp_all add: json_escape_def)
  qed
qed

lemma escape_prefix_free:
  assumes "json_escape c1 @ x1 = json_escape c2 @ x2"
  shows "c1 = c2 \<and> x1 = x2"
proof (cases c1 rule: json_escape_cases)
  case plain
  then show ?thesis using assms
    by (cases c2 rule: json_escape_cases) auto
next
  case (short x)
  note s1 = this
  show ?thesis
  proof (cases c2 rule: json_escape_cases)
    case plain
    with s1 assms show ?thesis by auto
  next
    case (short y)
    with s1 assms have "x = y" and "x1 = x2" by auto
    with s1(3) short(3) show ?thesis by simp
  next
    case long
    with s1 assms show ?thesis by auto
  qed
next
  case long
  note l1 = this
  show ?thesis
  proof (cases c2 rule: json_escape_cases)
    case plain
    with l1 assms show ?thesis by auto
  next
    case (short y)
    with l1 assms show ?thesis by auto
  next
    case long
    with l1 assms have "hex_char (of_char c1 div 16) = hex_char (of_char c2 div 16)"
      and "hex_char (of_char c1 mod 16) = hex_char (of_char c2 mod 16)" and "x1 = x2"
      by auto
    with hex_pair_inj show ?thesis by blast
  qed
qed

lemma json_escape_first: "\<exists>x xs. json_escape c = x # xs \<and> x \<noteq> dquote"
  by (cases c rule: json_escape_cases) auto

lemma escapes_split:
  assumes "concat (map json_escape s1) @ dquote # r1 = concat (map json_escape s2) @ dquote # r2"
  shows "s1 = s2 \<and> r1 = r2"
  using assms
proof (induction s1 arbitrary: s2)
  case Nil
  show ?case
  proof (cases s2)
    case Nil
    with Nil.prems show ?thesis by simp
  next
    case (Cons c cs)
    from json_escape_first [of c] obtain x xs
      where "json_escape c = x # xs" and "x \<noteq> dquote" by blast
    with Nil.prems Cons show ?thesis by simp
  qed
next
  case (Cons c cs)
  show ?case
  proof (cases s2)
    case Nil
    from json_escape_first [of c] obtain x xs
      where "json_escape c = x # xs" and "x \<noteq> dquote" by blast
    with Cons.prems Nil show ?thesis by simp
  next
    case (Cons d ds)
    with Cons.prems have
      "json_escape c @ (concat (map json_escape cs) @ dquote # r1) =
       json_escape d @ (concat (map json_escape ds) @ dquote # r2)" by simp
    from escape_prefix_free [OF this]
    have "c = d" and "concat (map json_escape cs) @ dquote # r1 =
        concat (map json_escape ds) @ dquote # r2" by simp_all
    with Cons.IH [of ds] Cons show ?thesis by simp
  qed
qed

lemma json_quote_split:
  "json_quote s1 @ r1 = json_quote s2 @ r2 \<Longrightarrow> s1 = s2 \<and> r1 = r2"
  using escapes_split [of s1 r1 s2 r2] by (simp add: json_quote_def)

subsubsection \<open>Arrays and objects\<close>

lemma join_comma_Cons:
  "join_comma (x # xs) = x @ (if xs = [] then [] else CHR '','' # join_comma xs)"
  by (cases xs) simp_all

lemma join_split:
  fixes f :: "'a \<Rightarrow> string"
  assumes "\<And>x y t1 t2. x \<in> set xs \<Longrightarrow> P y \<Longrightarrow> f x @ t1 = f y @ t2 \<Longrightarrow>
             ends_value t1 \<Longrightarrow> ends_value t2 \<Longrightarrow> x = y \<and> t1 = t2"
    and "\<And>x. P x \<Longrightarrow> \<exists>c cs. f x = c # cs \<and> \<not> ends_value [c]"
    and "list_all P xs" and "list_all P ys"
    and "cl = CHR '']'' \<or> cl = CHR ''}''"
    and "join_comma (map f xs) @ cl # r1 = join_comma (map f ys) @ cl # r2"
  shows "xs = ys \<and> r1 = r2"
  using assms
proof (induction xs arbitrary: ys)
  case Nil
  show ?case
  proof (cases ys)
    case Nil
    with Nil.prems show ?thesis by simp
  next
    case (Cons y ys')
    with Nil.prems(4) have "P y" by simp
    from Nil.prems(2) [OF this] obtain c cs where "f y = c # cs" and "\<not> ends_value [c]" by blast
    with Nil.prems(5,6) Cons show ?thesis by (auto simp: join_comma_Cons)
  qed
next
  case (Cons x xs)
  from Cons.prems(3) have Px: "P x" and Pxs: "list_all P xs" by simp_all
  show ?case
  proof (cases ys)
    case Nil
    from Cons.prems(2) [OF Px] obtain c cs where "f x = c # cs" and "\<not> ends_value [c]" by blast
    with Cons.prems(5,6) Nil show ?thesis by (auto simp: join_comma_Cons)
  next
    case (Cons y ys')
    with Cons.prems(4) have Py: "P y" and Pys: "list_all P ys'" by simp_all
    let ?t1 = "(if xs = [] then [] else CHR '','' # join_comma (map f xs)) @ cl # r1"
    let ?t2 = "(if ys' = [] then [] else CHR '','' # join_comma (map f ys')) @ cl # r2"
    from Cons.prems(6) Cons have eq: "f x @ ?t1 = f y @ ?t2"
      by (simp add: join_comma_Cons)
    have e1: "ends_value ?t1" and e2: "ends_value ?t2"
      using Cons.prems(5) by auto
    from Cons.prems(1) [OF _ Py eq e1 e2] have xy: "x = y" and t: "?t1 = ?t2" by simp_all
    have "xs = ys' \<and> r1 = r2"
    proof (cases "xs = []")
      case True
      with t Cons.prems(5) show ?thesis by (cases "ys' = []") auto
    next
      case False
      with t Cons.prems(5) have nonempty: "ys' \<noteq> []" by (cases "ys' = []") auto
      with t False
      have joined: "join_comma (map f xs) @ cl # r1 = join_comma (map f ys') @ cl # r2"
        by simp
      have item: "x' = y' \<and> t1 = t2"
        if "x' \<in> set xs" "P y'" "f x' @ t1 = f y' @ t2" "ends_value t1" "ends_value t2"
        for x' y' t1 t2
        using that by (intro Cons.prems(1)) simp_all
      show ?thesis
        by (rule Cons.IH [OF item Cons.prems(2) Pxs Pys Cons.prems(5) joined])
    qed
    with xy Cons show ?thesis by simp
  qed
qed

lemma json_text_inj_aux:
  "serializable v1 \<Longrightarrow> serializable v2 \<Longrightarrow> json_text v1 @ r1 = json_text v2 @ r2 \<Longrightarrow>
   ends_value r1 \<Longrightarrow> ends_value r2 \<Longrightarrow> v1 = v2 \<and> r1 = r2"
proof (induction v1 arbitrary: v2 r1 r2)
  case JNull
  from JNull.prems(1,2,3) text_kind_json_text [of JNull r1] text_kind_json_text [of v2 r2]
  have "value_kind v2 = 0" by simp
  then have "v2 = JNull" by (cases v2) simp_all
  with JNull.prems(3) show ?case by simp
next
  case (JBool b)
  from JBool.prems(1,2,3) text_kind_json_text [of "JBool b" r1] text_kind_json_text [of v2 r2]
  have "value_kind v2 = 1" by simp
  then obtain b' where "v2 = JBool b'" by (cases v2) simp_all
  with JBool.prems(3) show ?case by (cases b; cases b') simp_all
next
  case (JNum n)
  from JNum.prems(1,2,3) text_kind_json_text [of "JNum n" r1] text_kind_json_text [of v2 r2]
  have "value_kind v2 = 2" by simp
  with JNum.prems(2) obtain m where v2: "v2 = JNum m" by (cases v2) simp_all
  with JNum.prems(3) have "show_int n @ r1 = show_int m @ r2" by simp
  from show_int_split [OF this ends_value_not_digit [OF JNum.prems(4)]
        ends_value_not_digit [OF JNum.prems(5)]] v2
  show ?case by simp
next
  case (JBigInt n)
  then show ?case by simp
next
  case (JStr s)
  from JStr.prems(1,2,3) text_kind_json_text [of "JStr s" r1] text_kind_json_text [of v2 r2]
  have "value_kind v2 = 3" by simp
  then obtain s' where v2: "v2 = JStr s'" by (cases v2) simp_all
  with JStr.prems(3) json_quote_split [of s r1 s' r2] show ?case by simp
next
  case (JArr xs)
  from JArr.prems(1,2,3) text_kind_json_text [of "JArr xs" r1] text_kind_json_text [of v2 r2]
  have "value_kind v2 = 4" by simp
  then obtain ys where v2: "v2 = JArr ys" by (cases v2) simp_all
  from JArr.prems(1) have sx: "list_all serializable xs" by simp
  from JArr.prems(2) v2 have sy: "list_all serializable ys" by simp
  from JArr.prems(3) v2
  have eq: "join_comma (map json_text xs) @ CHR '']'' # r1 =
            join_comma (map json_text ys) @ CHR '']'' # r2" by simp
  have "xs = ys \<and> r1 = r2"
  proof (rule join_split [where f = json_text and P = serializable and cl = "CHR '']''",
        OF _ _ sx sy _ eq])
    fix x y t1 t2
    assume "x \<in> set xs" and "serializable y" and "json_text x @ t1 = json_text y @ t2"
      and "ends_value t1" and "ends_value t2"
    moreover from \<open>x \<in> set xs\<close> sx have "serializable x" by (simp add: list_all_iff)
    ultimately show "x = y \<and> t1 = t2" by (intro JArr.IH)
  next
    fix x :: json assume "serializable x"
    then show "\<exists>c cs. json_text x = c # cs \<and> \<not> ends_value [c]" by (rule json_text_not_end)
  qed simp
  with v2 show ?case by simp
next
  case (JObj kvs)
  let ?f = "\<lambda>kv. json_quote (fst kv) @ '':'' @ json_text (snd kv)"
  let ?P = "\<lambda>kv :: string \<times> json. serializable (snd kv)"
  from JObj.prems(1,2,3) text_kind_json_text [of "JObj kvs" r1] text_kind_json_text [of v2 r2]
  have "value_kind v2 = 5" by simp
  then obtain kvs' where v2: "v2 = JObj kvs'" by (cases v2) simp_all
  from JObj.prems(1) have sx: "list_all ?P kvs" by simp
  from JObj.prems(2) v2 have sy: "list_all ?P kvs'" by simp
  from JObj.prems(3) v2
  have eq: "join_comma (map ?f kvs) @ CHR ''}'' # r1 = join_comma (map ?f kvs') @ CHR ''}'' # r2"
    by simp
  have "kvs = kvs' \<and> r1 = r2"
  proof (rule join_split [where f = ?f and P = ?P and cl = "CHR ''}''", OF _ _ sx sy _ eq])
    fix x y :: "string \<times> json" and t1 t2
    assume x: "x \<in> set kvs" and y: "serializable (snd y)" and e: "?f x @ t1 = ?f y @ t2"
      and t1: "ends_value t1" and t2: "ends_value t2"
    from e have "json_quote (fst x) @ (CHR '':'' # json_text (snd x) @ t1) =
        json_quote (fst y) @ (CHR '':'' # json_text (snd y) @ t2)" by simp
    from json_quote_split [OF this]
    have k: "fst x = fst y" and rest: "json_text (snd x) @ t1 = json_text (snd y) @ t2"
      by simp_all
    from x sx have sxv: "serializable (snd x)" by (simp add: list_all_iff)
    have "snd x \<in> Basic_BNFs.snds x" by (cases x) simp
    from JObj.IH [OF x this sxv y rest t1 t2] k show "x = y \<and> t1 = t2"
      by (simp add: prod_eq_iff)
  next
    fix x :: "string \<times> json" assume "serializable (snd x)"
    show "\<exists>c cs. ?f x = c # cs \<and> \<not> ends_value [c]" by (simp add: json_quote_def)
  qed simp
  with v2 show ?case by simp
qed

lemma json_text_inj:
  "serializable v1 \<Longrightarrow> serializable v2 \<Longrightarrow> json_text v1 = json_text v2 \<Longrightarrow> v1 = v2"
  using json_text_inj_aux [of v1 v2 "[]" "[]"] by simp

lemma stringify_inj: "stringify v1 = Inr s \<Longrightarrow> stringify v2 = Inr s \<Longrightarrow> v1 = v2"
  by (auto simp: stringify_def intro: json_text_inj split: if_splits)

section \<open>The claims\<close>



text \<open>
  Claim C6. \<open>updateConfig(p)\<close> sets the configuration to the shallow merge of \<open>p\<close> over
  the current one: a top-level key of \<open>p\<close> takes the value \<open>p\<close> gives it, whole, and
  every other key keeps its value; cache and statistics are untouched. Both objects
  have each key once, as JavaScript objects do.
\<close>

theorem updateConfig_shallow_merge:
  assumes "wellFormedObject (config a)" and "wellFormedObject newConfig"
  shows "obj_get (config (updateConfig newConfig a)) k =
           (case obj_get newConfig k of Some v \<Rightarrow> Some v | None \<Rightarrow> obj_get (config a) k)
    \<and> wellFormedObject (config (updateConfig newConfig a))
    \<and> cache (updateConfig newConfig a) = cache a
    \<and> stats (updateConfig newConfig a) = stats a"
  using assms
  by (simp add: updateConfig_def obj_get_spread2 wellFormed_spread2)

text \<open>Supplying \<open>{openai: {apiKey}}\<close> drops the \<open>model\<close> field set before; \<open>mode\<close> stays.\<close>

theorem updateConfig_shallow_merge_witness:
  "wellFormedObject (config defaultAnalyzer)
   \<and> wellFormedObject [(''openai'', JObj [(''apiKey'', JStr ''sk-1'')])]
   \<and> obj_get (config defaultAnalyzer) ''openai'' =
       Some (JObj [(''apiKey'', JStr []), (''model'', JStr ''gpt-4-vision-preview'')])
   \<and> obj_get (config (updateConfig [(''openai'', JObj [(''apiKey'', JStr ''sk-1'')])]
          defaultAnalyzer)) ''openai'' = Some (JObj [(''apiKey'', JStr ''sk-1'')])
   \<and> obj_get (config (updateConfig [(''openai'', JObj [(''apiKey'', JStr ''sk-1'')])]
          defaultAnalyzer)) ''mode'' = Some (JStr ''mock'')"
proof -
  let ?p = "[(''openai'', JObj [(''apiKey'', JStr ''sk-1'')])]"
  have wf1: "wellFormedObject (config defaultAnalyzer)" by code_simp
  have wf2: "wellFormedObject ?p" by code_simp
  have old: "obj_get (config defaultAnalyzer) ''openai'' =
       Some (JObj [(''apiKey'', JStr []), (''model'', JStr ''gpt-4-vision-preview'')])"
    by code_simp
  have oldm: "obj_get (config defaultAnalyzer) ''mode'' = Some (JStr ''mock'')" by code_simp
  from updateConfig_shallow_merge [OF wf1 wf2, of "''openai''"]
       updateConfig_shallow_merge [OF wf1 wf2, of "''mode''"] wf1 wf2 old oldm
  show ?thesis by simp
qed

subsection \<open>Fingerprints\<close>








subsection \<open>Counting requests\<close>

lemma totalRequests_getStats: "totalRequests (getStats a) = totalRequests (stats a)"
  by (simp add: getStats_def stats.extend_def stats.defs)

lemma totalRequests_step:
  "totalRequests (stats (step a op)) =
     totalRequests (stats a) + (if isAnalyzeImage op then 1 else 0)"
  by (cases op)
     (auto simp: analyzeImage_def Let_def clearCache_def updateConfig_def
           split: option.splits sum.splits)

lemma totalRequests_run:
  "totalRequests (stats (run a ops)) =
     totalRequests (stats a) + length (filter isAnalyzeImage ops)"
  unfolding run_def
  by (induction ops arbitrary: a) (simp_all add: totalRequests_step)

text \<open>
  Claim C8. After any sequence of operations on a new analyzer, \<open>totalRequests\<close> is the
  number of \<open>analyzeImage\<close> calls in the sequence: each call adds exactly one, however
  it is served, and \<open>getStats\<close>, \<open>clearCache\<close> and \<open>updateConfig\<close> leave it alone.
\<close>

theorem totalRequests_counts_calls:
  "totalRequests (getStats (run (AIImageAnalyzer cfg) ops)) = length (filter isAnalyzeImage ops)
   \<and> totalRequests (stats (step a (AnalyzeImage w img options))) = totalRequests (stats a) + 1
   \<and> totalRequests (stats (step a GetStats)) = totalRequests (stats a)
   \<and> totalRequests (stats (step a ClearCache)) = totalRequests (stats a)
   \<and> totalRequests (stats (step a (UpdateConfig newConfig))) = totalRequests (stats a)"
  using totalRequests_run [of "AIImageAnalyzer cfg" ops]
        totalRequests_step [of a "AnalyzeImage w img options"]
        totalRequests_step [of a GetStats] totalRequests_step [of a ClearCache]
        totalRequests_step [of a "UpdateConfig newConfig"]
  by (simp add: AIImageAnalyzer_def totalRequests_getStats)

text \<open>Four calls among seven operations: a fresh one, a cache hit, one whose fallback
  throws and one whose fingerprint cannot be computed.\<close>

theorem totalRequests_counts_calls_witness:
  "totalRequests (getStats (run (AIImageAnalyzer [])
      [AnalyzeImage exampleWorld (Buffer ''abc'') (JObj []), GetStats,
       AnalyzeImage laterWorld (Buffer ''abc'') (JObj []), ClearCache,
       UpdateConfig [(''mode'', JStr ''openai'')],
       AnalyzeImage exampleWorld (Path ''./missing.jpg'') (JObj []),
       AnalyzeImage exampleWorld Nullish (JObj [])])) = 4"
  using totalRequests_counts_calls [of "[]"
      "[AnalyzeImage exampleWorld (Buffer ''abc'') (JObj []), GetStats,
       AnalyzeImage laterWorld (Buffer ''abc'') (JObj []), ClearCache,
       UpdateConfig [(''mode'', JStr ''openai'')],
       AnalyzeImage exampleWorld (Path ''./missing.jpg'') (JObj []),
       AnalyzeImage exampleWorld Nullish (JObj [])]"]
  by simp

subsection \<open>The error path\<close>

text \<open>
  Claim C9. On the error path of \<open>analyzeImage\<close> (no cache hit, the backend throws) the
  cache is left as it was, and so are \<open>successful\<close> and \<open>averageResponseTime\<close>: the
  substituted mock result is not stored. The next call with the same fingerprint is
  therefore not a cache hit: it leaves \<open>cacheHits\<close> alone and dispatches again, adding one
  to \<open>successful\<close> or to \<open>failed\<close>.
\<close>

theorem fallback_leaves_cache:
  assumes "getCacheKey img options = Inr k"
    and "\<not> cacheHit a k"
    and "dispatch (config a) w img options = Inl e"
  shows "cache (snd (analyzeImage w img options a)) = cache a
    \<and> successful (stats (snd (analyzeImage w img options a))) = successful (stats a)
    \<and> averageResponseTime (stats (snd (analyzeImage w img options a))) =
        averageResponseTime (stats a)
    \<and> \<not> cacheHit (snd (analyzeImage w img options a)) k
    \<and> cacheHits (stats (snd (analyzeImage w' img options (snd (analyzeImage w img options a)))))
        = cacheHits (stats a)
    \<and> successful (stats (snd (analyzeImage w' img options (snd (analyzeImage w img options a)))))
        + failed (stats (snd (analyzeImage w' img options (snd (analyzeImage w img options a)))))
        = successful (stats a) + failed (stats a) + 2"
proof -
  let ?a' = "snd (analyzeImage w img options a)"
  have a': "?a' = a\<lparr>stats := (stats a)\<lparr>totalRequests := totalRequests (stats a) + 1,
                                          failed := failed (stats a) + 1\<rparr>\<rparr>"
    by (simp add: analyzeImage_fallback [OF assms])
  have miss': "\<not> cacheHit ?a' k"
    using assms(2) by (simp add: a' cacheHit_def)
  have second: "cacheHits (stats (snd (analyzeImage w' img options ?a'))) = cacheHits (stats a)
    \<and> successful (stats (snd (analyzeImage w' img options ?a')))
        + failed (stats (snd (analyzeImage w' img options ?a')))
        = successful (stats a) + failed (stats a) + 2"
  proof (cases "dispatch (config ?a') w' img options")
    case (Inl e')
    show ?thesis
      by (simp add: analyzeImage_fallback [OF assms(1) miss' Inl]) (simp add: a')
  next
    case (Inr r')
    show ?thesis
      by (simp add: analyzeImage_fresh [OF assms(1) miss' Inr]) (simp add: a')
  qed
  from second miss' show ?thesis by (simp add: a')
qed

text \<open>OpenAI mode without a key: the fallback result of the first call is not cached.\<close>

theorem fallback_leaves_cache_witness:
  "getCacheKey (Buffer ''abc'') (JObj []) = Inr ''buffer-3-{}''
   \<and> \<not> cacheHit openaiNoKey ''buffer-3-{}''
   \<and> dispatch (config openaiNoKey) exampleWorld (Buffer ''abc'') (JObj []) =
       Inl (ErrorMsg ''OpenAI API key not configured'')
   \<and> cache (snd (analyzeImage exampleWorld (Buffer ''abc'') (JObj []) openaiNoKey)) = []
   \<and> \<not> cacheHit (snd (analyzeImage exampleWorld (Buffer ''abc'') (JObj []) openaiNoKey))
         ''buffer-3-{}''
   \<and> cacheHits (stats (snd (analyzeImage laterWorld (Buffer ''abc'') (JObj [])
         (snd (analyzeImage exampleWorld (Buffer ''abc'') (JObj []) openaiNoKey))))) = 0"
proof -
  have key: "getCacheKey (Buffer ''abc'') (JObj []) = Inr ''buffer-3-{}''" by code_simp
  have miss: "\<not> cacheHit openaiNoKey ''buffer-3-{}''" by code_simp
  have err: "dispatch (config openaiNoKey) exampleWorld (Buffer ''abc'') (JObj []) =
       Inl (ErrorMsg ''OpenAI API key not configured'')" by code_simp
  have empty: "cache openaiNoKey = []" "cacheHits (stats openaiNoKey) = 0" by code_simp+
  from fallback_leaves_cache [OF key miss err, of laterWorld] key miss err empty
  show ?thesis by simp
qed

subsection \<open>The counters\<close>

lemma counters_hit:
  assumes "getCacheKey img options = Inr k" and "cacheHit a k"
  shows "counters (stats (snd (analyzeImage w img options a))) =
           (totalRequests (stats a) + 1, successful (stats a), failed (stats a),
            cacheHits (stats a) + 1)"
proof -
  from cacheHit_D [OF assms(2)] obtain r
    where "truthy (obj_get (config a) ''cacheResults'')"
      and "obj_get (cache a) k = Some r" by blast
  then show ?thesis by (simp add: analyzeImage_hit [OF assms(1)] counters_def)
qed

lemma counters_fresh:
  assumes "getCacheKey img options = Inr k" and "\<not> cacheHit a k"
    and "dispatch (config a) w img options = Inr r"
  shows "counters (stats (snd (analyzeImage w img options a))) =
           (totalRequests (stats a) + 1, successful (stats a) + 1, failed (stats a),
            cacheHits (stats a))"
  by (simp add: analyzeImage_fresh [OF assms] counters_def)

lemma counters_fallback:
  assumes "getCacheKey img options = Inr k" and "\<not> cacheHit a k"
    and "dispatch (config a) w img options = Inl e"
  shows "counters (stats (snd (analyzeImage w img options a))) =
           (totalRequests (stats a) + 1, successful (stats a), failed (stats a) + 1,
            cacheHits (stats a))"
  by (simp add: analyzeImage_fallback [OF assms] counters_def)

lemma counters_throws:
  assumes "getCacheKey img options = Inl e"
  shows "counters (stats (snd (analyzeImage w img options a))) =
           (totalRequests (stats a) + 1, successful (stats a), failed (stats a),
            cacheHits (stats a))"
  by (simp add: analyzeImage_throws [OF assms] counters_def)

lemma statsInvariant_analyzeImage:
  assumes "getCacheKey img options = Inr k" and "statsInvariant (stats a)"
  shows "statsInvariant (stats (snd (analyzeImage w img options a)))"
proof (cases "cacheHit a k")
  case True
  from counters_hit [OF assms(1) True, of w] assms(2) show ?thesis
    by (simp add: counters_def statsInvariant_def)
next
  case False
  show ?thesis
  proof (cases "dispatch (config a) w img options")
    case (Inl e)
    from counters_fallback [OF assms(1) False Inl] assms(2) show ?thesis
      by (simp add: counters_def statsInvariant_def)
  next
    case (Inr r)
    from counters_fresh [OF assms(1) False Inr] assms(2) show ?thesis
      by (simp add: counters_def statsInvariant_def)
  qed
qed

lemma statsInvariant_step:
  assumes "fingerprintComputes op" and "statsInvariant (stats a)"
  shows "statsInvariant (stats (step a op))"
proof (cases op)
  case (AnalyzeImage w img options)
  with assms(1) obtain k where "getCacheKey img options = Inr k"
    by (auto split: sum.splits)
  from statsInvariant_analyzeImage [OF this assms(2)] AnalyzeImage show ?thesis by simp
qed (use assms(2) in \<open>simp_all add: clearCache_def updateConfig_def\<close>)

lemma statsInvariant_run:
  "list_all fingerprintComputes ops \<Longrightarrow> statsInvariant (stats a) \<Longrightarrow>
   statsInvariant (stats (run a ops))"
  unfolding run_def
  by (induction ops arbitrary: a) (simp_all add: statsInvariant_step)

lemma statsInvariant_new: "statsInvariant (stats (AIImageAnalyzer cfg))"
  by (simp add: AIImageAnalyzer_def statsInvariant_def)

text \<open>
  Claim C10, amended. \<open>totalRequests = successful + failed + cacheHits\<close> holds for a new
  analyzer, whose counters are zero, and every \<open>analyzeImage\<close> call whose fingerprint
  can be computed preserves it: a cache hit adds one to \<open>totalRequests\<close> and \<open>cacheHits\<close>,
  a successful fresh dispatch one to \<open>totalRequests\<close> and \<open>successful\<close>, a failed dispatch
  one to \<open>totalRequests\<close> and \<open>failed\<close>. \<open>getStats\<close>, \<open>clearCache\<close> and \<open>updateConfig\<close>
  change no counter, so the invariant holds after every sequence of operations in which
  the fingerprint of each call can be computed.
\<close>

theorem stats_invariant:
  "statsInvariant (stats (AIImageAnalyzer cfg))
   \<and> counters (stats (AIImageAnalyzer cfg)) = (0, 0, 0, 0)
   \<and> (getCacheKey img options = Inr k \<and> statsInvariant (stats a) \<longrightarrow>
        statsInvariant (stats (snd (analyzeImage w img options a))))
   \<and> (getCacheKey img options = Inr k \<and> cacheHit a k \<longrightarrow>
        counters (stats (snd (analyzeImage w img options a))) =
          (totalRequests (stats a) + 1, successful (stats a), failed (stats a),
           cacheHits (stats a) + 1))
   \<and> (getCacheKey img options = Inr k \<and> \<not> cacheHit a k
        \<and> dispatch (config a) w img options = Inr r \<longrightarrow>
        counters (stats (snd (analyzeImage w img options a))) =
          (totalRequests (stats a) + 1, successful (stats a) + 1, failed (stats a),
           cacheHits (stats a)))
   \<and> (getCacheKey img options = Inr k \<and> \<not> cacheHit a k
        \<and> dispatch (config a) w img options = Inl e \<longrightarrow>
        counters (stats (snd (analyzeImage w img options a))) =
          (totalRequests (stats a) + 1, successful (stats a), failed (stats a) + 1,
           cacheHits (stats a)))
   \<and> step a GetStats = a
   \<and> stats (clearCache a) = stats a
   \<and> stats (updateConfig newConfig a) = stats a
   \<and> (list_all fingerprintComputes ops \<longrightarrow>
        statsInvariant (stats (run (AIImageAnalyzer cfg) ops)))"
  using statsInvariant_new [of cfg] statsInvariant_analyzeImage [of img options k a w]
    counters_hit [of img options k a w] counters_fresh [of img options k a w r]
    counters_fallback [of img options k a w e]
    statsInvariant_run [OF _ statsInvariant_new, of ops cfg]
  by (simp add: clearCache_def updateConfig_def) (simp add: AIImageAnalyzer_def counters_def)

text \<open>A failed dispatch takes the counters from \<open>(0, 0, 0, 0)\<close> to \<open>(1, 0, 1, 0)\<close>, and
  the invariant holds after a run of three operations.\<close>

theorem stats_invariant_witness:
  "getCacheKey (Buffer ''abc'') (JObj []) = Inr ''buffer-3-{}''
   \<and> statsInvariant (stats openaiNoKey)
   \<and> statsInvariant (stats (snd (analyzeImage exampleWorld (Buffer ''abc'') (JObj []) openaiNoKey)))
   \<and> \<not> cacheHit openaiNoKey ''buffer-3-{}''
   \<and> dispatch (config openaiNoKey) exampleWorld (Buffer ''abc'') (JObj []) =
       Inl (ErrorMsg ''OpenAI API key not configured'')
   \<and> counters (stats (snd (analyzeImage exampleWorld (Buffer ''abc'') (JObj []) openaiNoKey))) =
       (1, 0, 1, 0)
   \<and> list_all fingerprintComputes
       [AnalyzeImage exampleWorld (Buffer ''abc'') (JObj []), ClearCache,
        AnalyzeImage laterWorld (Path ''./cat.jpg'') (JObj [])]
   \<and> statsInvariant (stats (run (AIImageAnalyzer [])
       [AnalyzeImage exampleWorld (Buffer ''abc'') (JObj []), ClearCache,
        AnalyzeImage laterWorld (Path ''./cat.jpg'') (JObj [])]))"
proof -
  let ?ops = "[AnalyzeImage exampleWorld (Buffer ''abc'') (JObj []), ClearCache,
        AnalyzeImage laterWorld (Path ''./cat.jpg'') (JObj [])]"
  have key: "getCacheKey (Buffer ''abc'') (JObj []) = Inr ''buffer-3-{}''" by code_simp
  have inv: "statsInvariant (stats openaiNoKey)" by code_simp
  have miss: "\<not> cacheHit openaiNoKey ''buffer-3-{}''" by code_simp
  have err: "dispatch (config openaiNoKey) exampleWorld (Buffer ''abc'') (JObj []) =
       Inl (ErrorMsg ''OpenAI API key not configured'')" by code_simp
  have zero: "counters (stats openaiNoKey) = (0, 0, 0, 0)" by code_simp
  have fp: "list_all fingerprintComputes ?ops" by code_simp
  from stats_invariant [where cfg = "[]" and a = openaiNoKey and w = exampleWorld
        and img = "Buffer ''abc''" and options = "JObj []" and k = "''buffer-3-{}''"
        and e = "ErrorMsg ''OpenAI API key not configured''" and newConfig = "[]"
        and ops = ?ops]
    key inv miss err zero fp
  show ?thesis by (simp add: counters_def)
qed

text \<open>
  The claim as first stated fails. The fingerprint is computed after \<open>totalRequests++\<close>
  and outside the \<open>try\<close> block: a call without an image, or with a BigInt in the
  options, rejects with \<open>totalRequests\<close> alone incremented. The counters are then
  \<open>(1, 0, 0, 0)\<close> and the invariant is broken, also after a later call.
\<close>

theorem stats_invariant_counterexample:
  "getCacheKey Nullish (JObj []) = Inl TypeError
   \<and> statsInvariant (stats defaultAnalyzer)
   \<and> fst (analyzeImage exampleWorld Nullish (JObj []) defaultAnalyzer) = Inl TypeError
   \<and> counters (stats (snd (analyzeImage exampleWorld Nullish (JObj []) defaultAnalyzer))) =
       (1, 0, 0, 0)
   \<and> \<not> statsInvariant (stats (snd (analyzeImage exampleWorld Nullish (JObj []) defaultAnalyzer)))
   \<and> getCacheKey (Buffer ''abc'') (JObj [(''seed'', JBigInt 1)]) = Inl TypeError
   \<and> \<not> statsInvariant (stats (run defaultAnalyzer
        [AnalyzeImage exampleWorld (Buffer ''abc'') (JObj [(''seed'', JBigInt 1)]),
         AnalyzeImage exampleWorld (Buffer ''abc'') (JObj [])]))"
  by code_simp

subsection \<open>Backends that throw\<close>

lemma analyzeWithOpenAI_no_key:
  "\<not> openaiKeyConfigured cfg \<Longrightarrow> \<exists>e. analyzeWithOpenAI cfg w img options = Inl e"
  by (auto simp: openaiKeyConfigured_def analyzeWithOpenAI_def split: sum.splits)

lemma startTime_unbound:
  "resolveIdentifier googleVisionScope ''startTime'' = Inl (ReferenceError ''startTime'')"
  by (simp add: resolveIdentifier_def googleVisionScope_def)

lemma analyzeWithGoogleVision_throws:
  "analyzeWithGoogleVision cfg w img options \<noteq> Inr r"
  by (simp add: analyzeWithGoogleVision_def startTime_unbound
      split: sum.splits option.splits http_reply.splits google_data.splits)

lemma analyzeWithGoogleVision_ReferenceError:
  assumes "member (obj_get cfg ''google'') ''apiKey'' = Inr apiKey" and "truthy apiKey"
    and "imageLoads w img" and "googlePost w = Resolved GoogleWellFormed"
  shows "analyzeWithGoogleVision cfg w img options = Inl (ReferenceError ''startTime'')"
  using assms
  by (auto simp: analyzeWithGoogleVision_def startTime_unbound imageLoads_def
      split: sum.splits)

lemma dispatch_google:
  "obj_get cfg ''mode'' = Some (JStr ''google'') \<Longrightarrow>
   \<exists>e. dispatch cfg w img options = Inl e"
  by (cases "analyzeWithGoogleVision cfg w img options")
     (simp_all add: dispatch_def analyzeWithGoogleVision_throws)

lemma fallback_outcome:
  assumes "getCacheKey img options = Inr k"
    and "\<not> cacheHit a k"
    and "dispatch (config a) w img options = Inl e"
  shows "fst (analyzeImage w img options a) = analyzeWithMockAI w (mockFallback w) img
    \<and> snd (analyzeImage w img options a) =
        a\<lparr>stats := (stats a)\<lparr>totalRequests := totalRequests (stats a) + 1,
                              failed := failed (stats a) + 1\<rparr>\<rparr>
    \<and> failed (stats (snd (analyzeImage w img options a))) = failed (stats a) + 1
    \<and> (mockReadable w img \<longrightarrow>
         (\<exists>r. fst (analyzeImage w img options a) = Inr r \<and> isMockResult r))"
  using analyzeWithMockAI_readable [of w img "mockFallback w"]
  by (simp add: analyzeImage_fallback [OF assms])

text \<open>
  Claim C1, amended. When a call to \<open>analyzeImage\<close> reaches the dispatch (its
  fingerprint is computed and is not served from the cache) and the dispatched backend
  throws, the backend's error is not
  propagated: \<open>failed\<close> grows by exactly one, nothing else changes but
  \<open>totalRequests\<close>, and the call settles with the outcome of the substituted mock
  generation. When that generation does not throw itself (the image is a buffer, or a
  path that \<open>fs.statSync\<close> can read) this is a mock result with \<open>success = true\<close> and
  \<open>mode = 'mock'\<close>. In particular this is what the next such call does after
  \<open>updateConfig({mode: 'openai'})\<close> on an analyzer without an OpenAI key.
\<close>

theorem fallback_on_backend_error:
  "(getCacheKey img options = Inr k \<and> \<not> cacheHit a k
      \<and> dispatch (config a) w img options = Inl e \<longrightarrow>
      fst (analyzeImage w img options a) = analyzeWithMockAI w (mockFallback w) img
      \<and> snd (analyzeImage w img options a) =
          a\<lparr>stats := (stats a)\<lparr>totalRequests := totalRequests (stats a) + 1,
                                failed := failed (stats a) + 1\<rparr>\<rparr>
      \<and> failed (stats (snd (analyzeImage w img options a))) = failed (stats a) + 1
      \<and> (mockReadable w img \<longrightarrow>
           (\<exists>r. fst (analyzeImage w img options a) = Inr r \<and> isMockResult r)))
   \<and> (wellFormedObject (config a) \<and> \<not> openaiKeyConfigured (config a)
      \<and> getCacheKey img options = Inr k
      \<and> \<not> cacheHit (updateConfig [(''mode'', JStr ''openai'')] a) k \<longrightarrow>
      fst (analyzeImage w img options (updateConfig [(''mode'', JStr ''openai'')] a)) =
          analyzeWithMockAI w (mockFallback w) img
      \<and> failed (stats (snd (analyzeImage w img options
             (updateConfig [(''mode'', JStr ''openai'')] a)))) = failed (stats a) + 1
      \<and> (mockReadable w img \<longrightarrow>
           (\<exists>r. fst (analyzeImage w img options
                     (updateConfig [(''mode'', JStr ''openai'')] a)) = Inr r
                \<and> isMockResult r)))"
proof (rule conjI)
  show "getCacheKey img options = Inr k \<and> \<not> cacheHit a k
      \<and> dispatch (config a) w img options = Inl e \<longrightarrow>
      fst (analyzeImage w img options a) = analyzeWithMockAI w (mockFallback w) img
      \<and> snd (analyzeImage w img options a) =
          a\<lparr>stats := (stats a)\<lparr>totalRequests := totalRequests (stats a) + 1,
                                failed := failed (stats a) + 1\<rparr>\<rparr>
      \<and> failed (stats (snd (analyzeImage w img options a))) = failed (stats a) + 1
      \<and> (mockReadable w img \<longrightarrow>
           (\<exists>r. fst (analyzeImage w img options a) = Inr r \<and> isMockResult r))"
    using fallback_outcome [of img options k a w e] by blast
next
  let ?a = "updateConfig [(''mode'', JStr ''openai'')] a"
  show "wellFormedObject (config a) \<and> \<not> openaiKeyConfigured (config a)
      \<and> getCacheKey img options = Inr k \<and> \<not> cacheHit ?a k \<longrightarrow>
      fst (analyzeImage w img options ?a) = analyzeWithMockAI w (mockFallback w) img
      \<and> failed (stats (snd (analyzeImage w img options ?a))) = failed (stats a) + 1
      \<and> (mockReadable w img \<longrightarrow>
           (\<exists>r. fst (analyzeImage w img options ?a) = Inr r \<and> isMockResult r))"
  proof
    assume h: "wellFormedObject (config a) \<and> \<not> openaiKeyConfigured (config a)
      \<and> getCacheKey img options = Inr k \<and> \<not> cacheHit ?a k"
    have wf: "wellFormedObject [(''mode'', JStr ''openai'')]"
      by (simp add: wellFormedObject_def)
    from h wf have mode: "obj_get (config ?a) ''mode'' = Some (JStr ''openai'')"
      and key: "obj_get (config ?a) ''openai'' = obj_get (config a) ''openai''"
      by (simp_all add: updateConfig_def obj_get_spread2)
    from h key have "\<not> openaiKeyConfigured (config ?a)"
      by (simp add: openaiKeyConfigured_def)
    from analyzeWithOpenAI_no_key [OF this, of w img options] mode
    obtain e' where e': "dispatch (config ?a) w img options = Inl e'"
      by (auto simp: dispatch_def)
    from h have k: "getCacheKey img options = Inr k" and miss: "\<not> cacheHit ?a k" by simp_all
    have same: "failed (stats ?a) = failed (stats a)" by (simp add: updateConfig_def)
    note fo = fallback_outcome [OF k miss e']
    show "fst (analyzeImage w img options ?a) = analyzeWithMockAI w (mockFallback w) img
      \<and> failed (stats (snd (analyzeImage w img options ?a))) = failed (stats a) + 1
      \<and> (mockReadable w img \<longrightarrow>
           (\<exists>r. fst (analyzeImage w img options ?a) = Inr r \<and> isMockResult r))"
    proof (intro conjI)
      from fo show "fst (analyzeImage w img options ?a) = analyzeWithMockAI w (mockFallback w) img"
        by blast
      from fo have "failed (stats (snd (analyzeImage w img options ?a))) = failed (stats ?a) + 1"
        by blast
      with same show "failed (stats (snd (analyzeImage w img options ?a))) = failed (stats a) + 1"
        by simp
      from fo show "mockReadable w img \<longrightarrow>
           (\<exists>r. fst (analyzeImage w img options ?a) = Inr r \<and> isMockResult r)"
        by blast
    qed
  qed
qed

text \<open>OpenAI mode without a key, on the existing file \<open>./cat.jpg\<close>.\<close>

theorem fallback_on_backend_error_witness:
  "wellFormedObject (config defaultAnalyzer) \<and> \<not> openaiKeyConfigured (config defaultAnalyzer)
   \<and> getCacheKey (Path ''./cat.jpg'') (JObj []) = Inr ''./cat.jpg-{}''
   \<and> \<not> cacheHit (updateConfig [(''mode'', JStr ''openai'')] defaultAnalyzer) ''./cat.jpg-{}''
   \<and> mockReadable exampleWorld (Path ''./cat.jpg'')
   \<and> dispatch (config (updateConfig [(''mode'', JStr ''openai'')] defaultAnalyzer)) exampleWorld
         (Path ''./cat.jpg'') (JObj []) = Inl (ErrorMsg ''OpenAI API key not configured'')
   \<and> (\<exists>r. fst (analyzeImage exampleWorld (Path ''./cat.jpg'') (JObj [])
               (updateConfig [(''mode'', JStr ''openai'')] defaultAnalyzer)) = Inr r
          \<and> isMockResult r)
   \<and> failed (stats (snd (analyzeImage exampleWorld (Path ''./cat.jpg'') (JObj [])
               (updateConfig [(''mode'', JStr ''openai'')] defaultAnalyzer)))) = 1"
proof -
  let ?a = "updateConfig [(''mode'', JStr ''openai'')] defaultAnalyzer"
  have wf: "wellFormedObject (config defaultAnalyzer)" by code_simp
  have nokey: "\<not> openaiKeyConfigured (config defaultAnalyzer)" by code_simp
  have key: "getCacheKey (Path ''./cat.jpg'') (JObj []) = Inr ''./cat.jpg-{}''" by code_simp
  have miss: "\<not> cacheHit ?a ''./cat.jpg-{}''" by code_simp
  have readable: "mockReadable exampleWorld (Path ''./cat.jpg'')" by code_simp
  have err: "dispatch (config ?a) exampleWorld (Path ''./cat.jpg'') (JObj []) =
      Inl (ErrorMsg ''OpenAI API key not configured'')" by code_simp
  have zero: "failed (stats defaultAnalyzer) = 0" by code_simp
  from fallback_on_backend_error [where a = defaultAnalyzer and img = "Path ''./cat.jpg''"
      and options = "JObj []" and w = exampleWorld and k = "''./cat.jpg-{}''"
      and e = "ErrorMsg ''OpenAI API key not configured''"]
    wf nokey key miss
  have concl: "failed (stats (snd (analyzeImage exampleWorld (Path ''./cat.jpg'') (JObj []) ?a))) =
        failed (stats defaultAnalyzer) + 1
      \<and> (mockReadable exampleWorld (Path ''./cat.jpg'') \<longrightarrow>
           (\<exists>r. fst (analyzeImage exampleWorld (Path ''./cat.jpg'') (JObj []) ?a) = Inr r
                \<and> isMockResult r))"
    by blast
  with readable
  have ex: "\<exists>r. fst (analyzeImage exampleWorld (Path ''./cat.jpg'') (JObj []) ?a) = Inr r
                \<and> isMockResult r" by blast
  from concl zero
  have one: "failed (stats (snd (analyzeImage exampleWorld (Path ''./cat.jpg'') (JObj []) ?a))) = 1"
    by simp
  from wf nokey key miss readable err ex one show ?thesis by blast
qed

text \<open>
  The claim as first stated fails. In OpenAI mode without a key, a call on a path that
  \<open>fs.statSync\<close> cannot read rejects: the backend throws, \<open>failed\<close> goes from zero to one,
  the mock generation of the \<open>catch\<close> block throws too, and no result is returned. And
  when the fingerprint was cached before the switch to OpenAI mode, the next call is a
  cache hit and \<open>failed\<close> stays at zero.
\<close>

theorem fallback_on_backend_error_counterexample:
  "\<not> openaiKeyConfigured (config defaultAnalyzer)
   \<and> getCacheKey (Path ''./missing.jpg'') (JObj []) = Inr ''./missing.jpg-{}''
   \<and> \<not> cacheHit openaiNoKey ''./missing.jpg-{}''
   \<and> dispatch (config openaiNoKey) exampleWorld (Path ''./missing.jpg'') (JObj []) =
       Inl (ErrorMsg ''OpenAI API key not configured'')
   \<and> fst (analyzeImage exampleWorld (Path ''./missing.jpg'') (JObj []) openaiNoKey) = Inl FsError
   \<and> failed (stats (snd (analyzeImage exampleWorld (Path ''./missing.jpg'') (JObj [])
        openaiNoKey))) = 1
   \<and> failed (stats (run defaultAnalyzer
        [AnalyzeImage exampleWorld (Buffer ''abc'') (JObj []),
         UpdateConfig [(''mode'', JStr ''openai'')]])) = 0
   \<and> failed (stats (run defaultAnalyzer
        [AnalyzeImage exampleWorld (Buffer ''abc'') (JObj []),
         UpdateConfig [(''mode'', JStr ''openai'')],
         AnalyzeImage laterWorld (Buffer ''abc'') (JObj [])])) = 0"
  by code_simp

text \<open>
  Claim C2, amended. \<open>analyzeWithGoogleVision\<close> never returns a result: with a key, a
  loadable image and a well-formed response to the annotate request it throws a
  ReferenceError for \<open>startTime\<close>, and on every other input it throws earlier. So every
  call in google mode that reaches the dispatch (its fingerprint is computed and is not
  served from the cache) adds one to \<open>failed\<close>, none to \<open>successful\<close>, and returns a mock
  result whenever the substituted mock generation does not throw itself.
\<close>

theorem google_success_unreachable:
  "analyzeWithGoogleVision cfg w img options \<noteq> Inr r
   \<and> (member (obj_get cfg ''google'') ''apiKey'' = Inr apiKey \<and> truthy apiKey
        \<and> imageLoads w img \<and> googlePost w = Resolved GoogleWellFormed \<longrightarrow>
        analyzeWithGoogleVision cfg w img options = Inl (ReferenceError ''startTime''))
   \<and> (obj_get (config a) ''mode'' = Some (JStr ''google'')
        \<and> getCacheKey img options = Inr k \<and> \<not> cacheHit a k \<longrightarrow>
        failed (stats (snd (analyzeImage w img options a))) = failed (stats a) + 1
        \<and> successful (stats (snd (analyzeImage w img options a))) = successful (stats a)
        \<and> (mockReadable w img \<longrightarrow>
             (\<exists>r'. fst (analyzeImage w img options a) = Inr r' \<and> isMockResult r')))"
proof (intro conjI impI)
  show "analyzeWithGoogleVision cfg w img options \<noteq> Inr r"
    by (rule analyzeWithGoogleVision_throws)
next
  assume "member (obj_get cfg ''google'') ''apiKey'' = Inr apiKey \<and> truthy apiKey
        \<and> imageLoads w img \<and> googlePost w = Resolved GoogleWellFormed"
  then show "analyzeWithGoogleVision cfg w img options = Inl (ReferenceError ''startTime'')"
    by (intro analyzeWithGoogleVision_ReferenceError [of cfg apiKey]) simp_all
next
  assume h: "obj_get (config a) ''mode'' = Some (JStr ''google'')
        \<and> getCacheKey img options = Inr k \<and> \<not> cacheHit a k"
  with dispatch_google [of "config a" w img options]
  obtain e where e: "dispatch (config a) w img options = Inl e" by blast
  from h have key: "getCacheKey img options = Inr k" and miss: "\<not> cacheHit a k" by simp_all
  show "failed (stats (snd (analyzeImage w img options a))) = failed (stats a) + 1"
    and "successful (stats (snd (analyzeImage w img options a))) = successful (stats a)"
    by (simp_all add: analyzeImage_fallback [OF key miss e])
  assume "mockReadable w img"
  with fallback_outcome [OF key miss e]
  show "\<exists>r'. fst (analyzeImage w img options a) = Inr r' \<and> isMockResult r'" by blast
qed

text \<open>Google mode with a key, the file \<open>./cat.jpg\<close> and a well-formed response.\<close>

theorem google_success_unreachable_witness:
  "member (obj_get (config googleWithKey) ''google'') ''apiKey'' = Inr (Some (JStr ''g-1''))
   \<and> truthy (Some (JStr ''g-1'')) \<and> imageLoads exampleWorld (Path ''./cat.jpg'')
   \<and> googlePost exampleWorld = Resolved GoogleWellFormed
   \<and> analyzeWithGoogleVision (config googleWithKey) exampleWorld (Path ''./cat.jpg'') (JObj []) =
       Inl (ReferenceError ''startTime'')
   \<and> obj_get (config googleWithKey) ''mode'' = Some (JStr ''google'')
   \<and> getCacheKey (Path ''./cat.jpg'') (JObj []) = Inr ''./cat.jpg-{}''
   \<and> \<not> cacheHit googleWithKey ''./cat.jpg-{}''
   \<and> mockReadable exampleWorld (Path ''./cat.jpg'')
   \<and> failed (stats (snd (analyzeImage exampleWorld (Path ''./cat.jpg'') (JObj []) googleWithKey))) = 1
   \<and> (\<exists>r'. fst (analyzeImage exampleWorld (Path ''./cat.jpg'') (JObj []) googleWithKey) = Inr r'
          \<and> isMockResult r')"
proof -
  have key: "member (obj_get (config googleWithKey) ''google'') ''apiKey'' =
      Inr (Some (JStr ''g-1''))" by code_simp
  have tr: "truthy (Some (JStr ''g-1''))" by simp
  have loads: "imageLoads exampleWorld (Path ''./cat.jpg'')" by code_simp
  have post: "googlePost exampleWorld = Resolved GoogleWellFormed" by code_simp
  have mode: "obj_get (config googleWithKey) ''mode'' = Some (JStr ''google'')" by code_simp
  have fp: "getCacheKey (Path ''./cat.jpg'') (JObj []) = Inr ''./cat.jpg-{}''" by code_simp
  have miss: "\<not> cacheHit googleWithKey ''./cat.jpg-{}''" by code_simp
  have readable: "mockReadable exampleWorld (Path ''./cat.jpg'')" by code_simp
  have zero: "failed (stats googleWithKey) = 0" by code_simp
  from google_success_unreachable [where cfg = "config googleWithKey" and w = exampleWorld
      and img = "Path ''./cat.jpg''" and options = "JObj []" and apiKey = "Some (JStr ''g-1'')"
      and a = googleWithKey and k = "''./cat.jpg-{}''"]
    key tr loads post mode fp miss readable zero
  show ?thesis by simp
qed

text \<open>
  The claim as first stated fails. A fingerprint cached in mock mode is served from the
  cache after the switch to google mode: that google-mode call is a cache hit and leaves
  \<open>failed\<close> at zero. And a google-mode call on a path that cannot be read rejects
  instead of returning a mock result.
\<close>

theorem google_success_unreachable_counterexample:
  "obj_get (config (run defaultAnalyzer
        [AnalyzeImage exampleWorld (Buffer ''abc'') (JObj []),
         UpdateConfig [(''mode'', JStr ''google''), (''google'', JObj [(''apiKey'', JStr ''g-1'')])]]))
      ''mode'' = Some (JStr ''google'')
   \<and> failed (stats (run defaultAnalyzer
        [AnalyzeImage exampleWorld (Buffer ''abc'') (JObj []),
         UpdateConfig [(''mode'', JStr ''google''), (''google'', JObj [(''apiKey'', JStr ''g-1'')])],
         AnalyzeImage laterWorld (Buffer ''abc'') (JObj [])])) = 0
   \<and> cacheHits (stats (run defaultAnalyzer
        [AnalyzeImage exampleWorld (Buffer ''abc'') (JObj []),
         UpdateConfig [(''mode'', JStr ''google''), (''google'', JObj [(''apiKey'', JStr ''g-1'')])],
         AnalyzeImage laterWorld (Buffer ''abc'') (JObj [])])) = 1
   \<and> obj_get (config googleWithKey) ''mode'' = Some (JStr ''google'')
   \<and> fst (analyzeImage exampleWorld (Path ''./missing.jpg'') (JObj []) googleWithKey) = Inl FsError"
  by code_simp

subsection \<open>Repeated requests\<close>

text \<open>
  Claim C3, amended. With caching enabled, when an \<open>analyzeImage\<close> call returns a result
  without taking the error fallback (\<open>failed\<close> is unchanged: it was a cache hit or a
  successful fresh dispatch), the next call with the same image reference and options
  returns the same result from the cache: it adds one to \<open>totalRequests\<close> and to
  \<open>cacheHits\<close> and changes nothing else, whatever the world looks like by then.
\<close>

theorem repeated_call_hits_cache:
  assumes "truthy (obj_get (config a) ''cacheResults'')"
    and "analyzeImage w img options a = (Inr r, a')"
    and "failed (stats a') = failed (stats a)"
  shows "analyzeImage w' img options a' =
           (Inr r, a'\<lparr>stats := (stats a')\<lparr>totalRequests := totalRequests (stats a') + 1,
                                           cacheHits := cacheHits (stats a') + 1\<rparr>\<rparr>)"
proof -
  obtain k where k: "getCacheKey img options = Inr k"
  proof (cases "getCacheKey img options")
    case (Inl e)
    from analyzeImage_throws [OF Inl, of w a] assms(2) show ?thesis by simp
  next
    case (Inr k)
    then show ?thesis by (rule that)
  qed
  have cfg: "config a' = config a"
    using analyzeImage_config [of w img options a] assms(2) by simp
  have "obj_get (cache a') k = Some r"
  proof (cases "cacheHit a k")
    case True
    from cacheHit_D [OF True] obtain r0 where r0: "obj_get (cache a) k = Some r0" by blast
    from analyzeImage_hit [OF k assms(1) r0, of w] assms(2) r0 show ?thesis by auto
  next
    case False
    show ?thesis
    proof (cases "dispatch (config a) w img options")
      case (Inl e)
      from analyzeImage_fallback [OF k False Inl] assms(2,3) show ?thesis by auto
    next
      case (Inr r1)
      from analyzeImage_fresh [OF k False Inr] assms(1,2) show ?thesis
        by (auto simp: obj_get_obj_set)
    qed
  qed
  moreover from assms(1) cfg have "truthy (obj_get (config a') ''cacheResults'')" by simp
  ultimately show ?thesis by (intro analyzeImage_hit [OF k])
qed

text \<open>Two mock analyses of \<open>./cat.jpg\<close>: the second is served from the cache.\<close>

theorem repeated_call_hits_cache_witness:
  "truthy (obj_get (config defaultAnalyzer) ''cacheResults'')
   \<and> failed (stats (snd (analyzeImage exampleWorld (Path ''./cat.jpg'') (JObj []) defaultAnalyzer))) =
       failed (stats defaultAnalyzer)
   \<and> fst (analyzeImage laterWorld (Path ''./cat.jpg'') (JObj [])
         (snd (analyzeImage exampleWorld (Path ''./cat.jpg'') (JObj []) defaultAnalyzer))) =
       fst (analyzeImage exampleWorld (Path ''./cat.jpg'') (JObj []) defaultAnalyzer)
   \<and> counters (stats (snd (analyzeImage laterWorld (Path ''./cat.jpg'') (JObj [])
         (snd (analyzeImage exampleWorld (Path ''./cat.jpg'') (JObj []) defaultAnalyzer))))) =
       (2, 1, 0, 1)"
proof -
  let ?first = "analyzeImage exampleWorld (Path ''./cat.jpg'') (JObj []) defaultAnalyzer"
  have on: "truthy (obj_get (config defaultAnalyzer) ''cacheResults'')" by code_simp
  have ok: "?first = (Inr (projr (fst ?first)), snd ?first)" by code_simp
  have same: "failed (stats (snd ?first)) = failed (stats defaultAnalyzer)" by code_simp
  have c1: "counters (stats (snd ?first)) = (1, 1, 0, 0)" by code_simp
  have res: "fst ?first = Inr (projr (fst ?first))" by code_simp
  from repeated_call_hits_cache [OF on ok same, of laterWorld] res on same c1
  show ?thesis by (simp add: counters_def)
qed

text \<open>
  The claim as first stated fails. With caching enabled, in OpenAI mode without a key,
  two consecutive calls with the same buffer and options both take the error fallback:
  the results differ, \<open>cacheHits\<close> stays at zero and the second call raises \<open>failed\<close>
  from one to two.
\<close>

theorem repeated_call_hits_cache_counterexample:
  "truthy (obj_get (config openaiNoKey) ''cacheResults'')
   \<and> fst (analyzeImage laterWorld (Buffer ''abc'') (JObj [])
        (snd (analyzeImage exampleWorld (Buffer ''abc'') (JObj []) openaiNoKey))) \<noteq>
       fst (analyzeImage exampleWorld (Buffer ''abc'') (JObj []) openaiNoKey)
   \<and> counters (stats (snd (analyzeImage exampleWorld (Buffer ''abc'') (JObj []) openaiNoKey))) =
       (1, 0, 1, 0)
   \<and> counters (stats (snd (analyzeImage laterWorld (Buffer ''abc'') (JObj [])
        (snd (analyzeImage exampleWorld (Buffer ''abc'') (JObj []) openaiNoKey))))) = (2, 0, 2, 0)"
  by code_simp

subsection \<open>The mock generator\<close>

lemma pick_in_range:
  assumes "0 \<le> r" and "r < 1" and "xs \<noteq> []"
  shows "\<exists>x \<in> set xs. pick xs r = Some x"
proof -
  let ?n = "length xs"
  define i where "i = \<lfloor>r * of_nat ?n\<rfloor>"
  from assms(3) have n: "0 < ?n" by simp
  have "0 \<le> r * of_nat ?n" using assms(1) by simp
  then have lo: "0 \<le> i" unfolding i_def by simp
  have "r * of_nat ?n < 1 * of_nat ?n"
    using assms(2) n by (intro mult_strict_right_mono) simp_all
  then have "r * of_nat ?n < of_int (int ?n)" by simp
  then have hi: "i < int ?n" unfolding i_def by (simp only: floor_less_iff)
  from lo hi have "nat i < ?n" by simp
  then have "xs ! nat i \<in> set xs" by simp
  moreover have "pick xs r = Some (xs ! nat i)"
    using lo hi by (simp add: pick_def Let_def i_def)
  ultimately show ?thesis by simp
qed

lemma mock_sentiment_range:
  assumes "analyzeWithMockAI w mi img = Inr r"
    and "0 \<le> rndSentiment mi" and "rndSentiment mi < 1"
  shows "\<exists>s \<in> {''positive'', ''neutral'', ''negative'', ''mixed''}. resultSentiment r = Some s"
proof -
  from assms(1) have "resultSentiment r = getRandomSentiment (rndSentiment mi)"
    by (auto simp: analyzeWithMockAI_def Let_def resultSentiment_def split: sum.splits)
  with pick_in_range [OF assms(2,3), of "[''positive'', ''neutral'', ''negative'', ''mixed'']"]
  show ?thesis by (auto simp: getRandomSentiment_def)
qed

lemma mock_confidence_string:
  assumes "analyzeWithMockAI w mi img = Inr r"
  shows "resultConfidence r = Some (Str (toFixed2 (rndConfidence mi * (3 / 10) + 7 / 10)))"
  using assms
  by (auto simp: analyzeWithMockAI_def Let_def resultConfidence_def split: sum.splits)

lemma toFixed2_mock_range:
  assumes "0 \<le> x" and "x < 1"
  shows "\<exists>n. 70 \<le> n \<and> n \<le> 100 \<and>
           toFixed2 (x * (3 / 10) + 7 / 10) =
             show_nat (n div 100) @ ''.'' @ [digit_char (n div 10 mod 10), digit_char (n mod 10)]"
proof -
  define v where "v = x * (3 / 10) + 7 / 10"
  define i where "i = \<lfloor>\<bar>v\<bar> * 100 + 1 / 2\<rfloor>"
  from assms have pos: "0 \<le> v" unfolding v_def by simp
  then have abs: "\<bar>v\<bar> = v" by simp
  have "of_int 70 \<le> v * 100 + 1 / 2" using assms(1) unfolding v_def by simp
  then have lo: "70 \<le> i" unfolding i_def abs by (simp only: le_floor_iff)
  have "v * 100 + 1 / 2 < of_int 101" using assms(2) unfolding v_def by simp
  then have hi: "i < 101" unfolding i_def abs by (simp only: floor_less_iff)
  from lo hi have "70 \<le> nat i \<and> nat i \<le> 100" by linarith
  moreover have "toFixed2 v =
      show_nat (nat i div 100) @ ''.'' @ [digit_char (nat i div 10 mod 10), digit_char (nat i mod 10)]"
    using pos by (simp add: toFixed2_def Let_def i_def)
  ultimately show ?thesis unfolding v_def by blast
qed

lemma openai_confidence_number: "confidence_o (parseOpenAIResponse w txt) = Num (85 / 100)"
  by (simp add: parseOpenAIResponse_def)

text \<open>
  Claim C4. A mock-mode call on the buffer \<open>abc\<close> with the confidence draw \<open>0.5\<close> returns
  a mock result whose \<open>confidence\<close> is the string \<open>0.85\<close>, the value of \<open>toFixed(2)\<close>,
  and not a number; its sentiment is one of the four labels. (By
  \<open>mock_confidence_string\<close> and \<open>toFixed2_mock_range\<close> every mock result carries such a
  string, of a number of hundredths between 70 and 100; by \<open>openai_confidence_number\<close>
  the OpenAI backend returns a number.)
\<close>

theorem mock_confidence_is_a_string:
  "fst (analyzeImage exampleWorld (Buffer ''abc'') (JObj []) defaultAnalyzer) =
     Inr (projr (fst (analyzeImage exampleWorld (Buffer ''abc'') (JObj []) defaultAnalyzer)))
   \<and> isMockResult (projr (fst (analyzeImage exampleWorld (Buffer ''abc'') (JObj []) defaultAnalyzer)))
   \<and> resultConfidence (projr (fst (analyzeImage exampleWorld (Buffer ''abc'') (JObj []) defaultAnalyzer)))
       = Some (Str ''0.85'')
   \<and> resultSentiment (projr (fst (analyzeImage exampleWorld (Buffer ''abc'') (JObj []) defaultAnalyzer)))
       = Some ''mixed''"
  by code_simp

end
